theory Spec2Isabelle
  imports Main "HOL-Library.Sublist"
begin

section \<open>Python values used by \<^verbatim>\<open>generate_sample_pdf.py\<close>\<close>

text \<open>
  The generator is a straight-line Python script over one constant table. Python's
  \<^verbatim>\<open>int\<close> is unbounded and is modelled by \<open>int\<close>; \<^verbatim>\<open>str\<close> is modelled by \<open>string\<close>
  (the two non-ASCII characters of the source are written as their UTF-8 bytes);
  \<^verbatim>\<open>float\<close> is an IEEE 754 binary64 value and is modelled exactly, as sign, integer
  significand and binary exponent, with round-to-nearest-even written out.
\<close>

subsection \<open>Decimal rendering of integers: \<^verbatim>\<open>str(n)\<close>, \<^verbatim>\<open>"%d" % n\<close>, \<^verbatim>\<open>f"{n:,}"\<close>\<close>

definition digit_char :: "nat \<Rightarrow> char" where
  "digit_char d = ''0123456789'' ! (d mod 10)"

fun str_nat :: "nat \<Rightarrow> string" where
  "str_nat n = (if n < 10 then [digit_char n] else str_nat (n div 10) @ [digit_char (n mod 10)])"

declare str_nat.simps [simp del]

definition str_int :: "int \<Rightarrow> string" where
  "str_int i = (if i < 0 then CHR ''-'' # str_nat (nat (- i)) else str_nat (nat i))"

text \<open>
  \<^verbatim>\<open>format(n, ",")\<close>: the decimal digits in groups of three counted from the right,
  the groups separated by commas, after the sign. \<open>group3\<close> works on the reversed
  digit string.
\<close>

fun group3 :: "string \<Rightarrow> string" where
  "group3 (a # b # c # d # ds) = a # b # c # CHR '','' # group3 (d # ds)"
| "group3 ds = ds"

definition format_comma :: "int \<Rightarrow> string" where
  "format_comma i =
     (if i < 0 then ''-'' else '''') @ rev (group3 (rev (str_nat (nat \<bar>i\<bar>))))"

text \<open>\<^verbatim>\<open>"%d" % n\<close> for an integer \<open>n\<close> is its decimal rendering.\<close>

definition percent_d :: "int \<Rightarrow> string" where
  "percent_d i = str_int i"

subsection \<open>Binary64 floating point\<close>

text \<open>
  \<open>Fin s m e\<close> is the finite double \<open>(-1)^s * m * 2^e\<close>. Results of the operations
  are kept in the canonical form of the format: \<open>2^52 \<le> m < 2^53\<close> and
  \<open>-1074 \<le> e \<le> 971\<close> for a normal number, \<open>m < 2^52\<close> and \<open>e = -1074\<close> for a
  subnormal number or a zero.
\<close>

datatype pyfloat = Fin bool nat int | Infty bool | NaN

fun bitlen :: "nat \<Rightarrow> nat" where
  "bitlen n = (if n = 0 then 0 else Suc (bitlen (n div 2)))"

declare bitlen.simps [simp del]

text \<open>\<open>pow2 k\<close> is \<open>2^k\<close> for \<open>k \<ge> 0\<close> and 1 otherwise.\<close>

definition pow2 :: "int \<Rightarrow> nat" where
  "pow2 k = 2 ^ nat k"

text \<open>
  Rounding of a non-negative integer quotient to the nearest integer, ties to the even
  neighbour.
\<close>

definition div_half_even :: "nat \<Rightarrow> nat \<Rightarrow> nat" where
  "div_half_even n d =
     (let q = n div d; r = n mod d
      in if 2 * r > d \<or> (2 * r = d \<and> odd q) then q + 1 else q)"

text \<open>
  \<open>round_ratio s n d e\<close> is the double nearest to \<open>(-1)^s * (n / d) * 2^e\<close>
  (\<open>d > 0\<close>), ties to even; a result of magnitude \<open>2^1024\<close> or more is an infinity.
  \<open>k\<close> is the exponent of the leading bit of \<open>n / d\<close>, \<open>t\<close> the exponent of the
  last place kept.
\<close>

definition round_ratio :: "bool \<Rightarrow> nat \<Rightarrow> nat \<Rightarrow> int \<Rightarrow> pyfloat" where
  "round_ratio s n d e =
     (if n = 0 then Fin s 0 (- 1074)
      else
        let k0 = int (bitlen n) - int (bitlen d);
            k = (if n * pow2 (- k0) \<ge> d * pow2 k0 then k0 else k0 - 1);
            t = max (k + e - 52) (- 1074);
            sh = t - e;
            m = div_half_even (n * pow2 (- sh)) (d * pow2 sh);
            m' = (if m = 2 ^ 53 then 2 ^ 52 else m);
            t' = (if m = 2 ^ 53 then t + 1 else t)
        in if t' > 971 then Infty s else Fin s m' t')"

text \<open>
  A decimal literal \<^verbatim>\<open>n.dd\<close> denotes the double nearest to the written value.
  An integer operand of a float operation is converted in the same way (Python raises
  \<^verbatim>\<open>OverflowError\<close> for an integer beyond the range of doubles; the script converts
  only 0, 2, 11 and a file size).
\<close>

definition float_lit :: "nat \<Rightarrow> nat \<Rightarrow> pyfloat" where
  "float_lit n d = round_ratio False n d 0"

definition float_of_int :: "int \<Rightarrow> pyfloat" where
  "float_of_int i = round_ratio (i < 0) (nat \<bar>i\<bar>) 1 0"

text \<open>
  The signed integer \<open>v\<close> with \<open>x = v * 2^e0\<close>, for \<open>e0\<close> no larger than the
  exponent of \<open>x\<close>. In a sum, a zero gives the other operand back (the sum of two
  zeros is negative only when both are), and two non-zero operands are added exactly
  at the smaller exponent and rounded once; an exact zero sum is positive.
\<close>

definition scaled :: "bool \<Rightarrow> nat \<Rightarrow> int \<Rightarrow> int \<Rightarrow> int" where
  "scaled s m e e0 = (if s then - 1 else 1) * int (m * pow2 (e - e0))"

fun fadd :: "pyfloat \<Rightarrow> pyfloat \<Rightarrow> pyfloat" where
  "fadd NaN _ = NaN"
| "fadd _ NaN = NaN"
| "fadd (Infty s) (Infty s') = (if s = s' then Infty s else NaN)"
| "fadd (Infty s) (Fin _ _ _) = Infty s"
| "fadd (Fin _ _ _) (Infty s) = Infty s"
| "fadd (Fin s1 m1 e1) (Fin s2 m2 e2) =
     (if m1 = 0 \<and> m2 = 0 then Fin (s1 \<and> s2) 0 (- 1074)
      else if m1 = 0 then Fin s2 m2 e2
      else if m2 = 0 then Fin s1 m1 e1
      else
        let e0 = min e1 e2;
            v = scaled s1 m1 e1 e0 + scaled s2 m2 e2 e0
        in if v = 0 then Fin False 0 (- 1074)
           else round_ratio (v < 0) (nat \<bar>v\<bar>) 1 e0)"

fun fneg :: "pyfloat \<Rightarrow> pyfloat" where
  "fneg (Fin s m e) = Fin (\<not> s) m e"
| "fneg (Infty s) = Infty (\<not> s)"
| "fneg NaN = NaN"

definition fsub :: "pyfloat \<Rightarrow> pyfloat \<Rightarrow> pyfloat" where
  "fsub x y = fadd x (fneg y)"

fun fmul :: "pyfloat \<Rightarrow> pyfloat \<Rightarrow> pyfloat" where
  "fmul NaN _ = NaN"
| "fmul _ NaN = NaN"
| "fmul (Infty s) (Infty s') = Infty (s \<noteq> s')"
| "fmul (Infty s) (Fin s' m _) = (if m = 0 then NaN else Infty (s \<noteq> s'))"
| "fmul (Fin s m _) (Infty s') = (if m = 0 then NaN else Infty (s \<noteq> s'))"
| "fmul (Fin s1 m1 e1) (Fin s2 m2 e2) = round_ratio (s1 \<noteq> s2) (m1 * m2) 1 (e1 + e2)"

text \<open>
  \<^verbatim>\<open>format(x, ".<p>f")\<close>: the exact value of the double, rounded to \<open>p\<close> decimals
  (ties to even), printed with its sign, at least one integer digit and exactly \<open>p\<close>
  fraction digits.
\<close>

definition pad_left :: "nat \<Rightarrow> string \<Rightarrow> string" where
  "pad_left p ds = replicate (p - length ds) CHR ''0'' @ ds"

fun format_f :: "nat \<Rightarrow> pyfloat \<Rightarrow> string" where
  "format_f p NaN = ''nan''"
| "format_f p (Infty s) = (if s then ''-inf'' else ''inf'')"
| "format_f p (Fin s m e) =
     (let n = div_half_even (m * 10 ^ p * pow2 e) (pow2 (- e))
      in (if s then ''-'' else '''') @ str_nat (n div 10 ^ p) @
         (if p = 0 then '''' else CHR ''.'' # pad_left p (str_nat (n mod 10 ^ p))))"

text \<open>
  \<^verbatim>\<open>sum(xs)\<close> over floats: the start value is the integer 0, and the items are added
  from left to right, each addition rounded. (CPython from version 3.12 on carries a
  compensation term along, which can change the last bits of the result.)
\<close>

definition sum_float :: "pyfloat list \<Rightarrow> pyfloat" where
  "sum_float xs = foldl fadd (float_of_int 0) xs"

text \<open>\<^verbatim>\<open>sum(xs)\<close> over integers is exact.\<close>

definition sum_int :: "int list \<Rightarrow> int" where
  "sum_int xs = foldl (+) 0 xs"

subsection \<open>Exceptions\<close>

text \<open>
  The script catches nothing: an exception raised anywhere ends the run. Every routine
  that can raise returns \<open>py_error + 'a\<close>, with \<open>Inl\<close> the exception.
\<close>

datatype py_error =
    KeyError string
  | FileExistsError
  | FileNotFoundError
  | NotADirectoryError
  | IsADirectoryError
  | PermissionError
  | LayoutError string

definition and_then :: "'e + 'a \<Rightarrow> ('a \<Rightarrow> 'e + 'b) \<Rightarrow> 'e + 'b" where
  "and_then r f = (case r of Inl e \<Rightarrow> Inl e | Inr v \<Rightarrow> f v)"

section \<open>The layout library's objects, as far as the script builds them\<close>

text \<open>
  The layout engine (ReportLab) is an external collaborator. Its objects are modelled as
  plain data holding what the script passes to their constructors and assigns to their
  attributes, in the script's own names.
\<close>

datatype color = HexColor string | white

datatype alignment = TA_CENTER | TA_JUSTIFY

datatype prop_value = IntV int | FloatV pyfloat | AlignV alignment | ColorV color | StrV string

text \<open>
  \<^verbatim>\<open>ParagraphStyle(name=..., parent=..., **kw)\<close>: the name, the parent style object and
  the keyword attributes that override the parent's.
\<close>

datatype pstyle = ParagraphStyle string "pstyle option" "(string \<times> prop_value) list"

text \<open>
  A style sheet maps a key to a style. \<^verbatim>\<open>styles[key]\<close> raises \<^verbatim>\<open>KeyError\<close> for an
  unknown key, \<^verbatim>\<open>styles.add(style)\<close> raises \<^verbatim>\<open>KeyError\<close> when the style's name is
  already taken.
\<close>

type_synonym stylesheet = "string \<rightharpoonup> pstyle"

definition sheet_get :: "stylesheet \<Rightarrow> string \<Rightarrow> py_error + pstyle" where
  "sheet_get styles key = (case styles key of None \<Rightarrow> Inl (KeyError key) | Some st \<Rightarrow> Inr st)"

fun sheet_add :: "stylesheet \<Rightarrow> pstyle \<Rightarrow> py_error + stylesheet" where
  "sheet_add styles (ParagraphStyle key par kw) =
     (case styles key of
        Some _ \<Rightarrow> Inl (KeyError key)
      | None \<Rightarrow> Inr (styles(key \<mapsto> ParagraphStyle key par kw)))"

text \<open>
  A table style command is a tuple: the command name, the first and the last cell
  (column, row; negative indices count from the end), and the command's arguments.
\<close>

datatype cmd_arg = IntA int | FloatA pyfloat | StrA string | ColorA color

type_synonym table_cmd = "string \<times> (int \<times> int) \<times> (int \<times> int) \<times> cmd_arg list"

text \<open>
  The attributes of \<^verbatim>\<open>VerticalBarChart\<close> that the script assigns. \<open>None\<close> is the
  library's default, left untouched. \<open>chart_data\<close> is a list of series.
\<close>

record bar_chart =
  chart_x :: "int option"
  chart_y :: "int option"
  chart_width :: "int option"
  chart_height :: "int option"
  chart_data :: "int list list"
  categoryAxis_categoryNames :: "string list"
  categoryAxis_labels_fontName :: "string option"
  categoryAxis_labels_fontSize :: "int option"
  valueAxis_valueMin :: "int option"
  valueAxis_valueMax :: "int option"
  valueAxis_valueStep :: "int option"
  valueAxis_labels_fontName :: "string option"
  valueAxis_labels_fontSize :: "int option"
  bars0_fillColor :: "color option"
  bars0_strokeColor :: "color option"
  bars0_strokeWidth :: "pyfloat option"
  barLabels_nudge :: "int option"
  barLabelFormat :: "string option"
  barLabels_fontName :: "string option"
  barLabels_fontSize :: "int option"

definition VerticalBarChart :: bar_chart where
  "VerticalBarChart =
     \<lparr>chart_x = None, chart_y = None, chart_width = None, chart_height = None,
      chart_data = [], categoryAxis_categoryNames = [],
      categoryAxis_labels_fontName = None, categoryAxis_labels_fontSize = None,
      valueAxis_valueMin = None, valueAxis_valueMax = None, valueAxis_valueStep = None,
      valueAxis_labels_fontName = None, valueAxis_labels_fontSize = None,
      bars0_fillColor = None, bars0_strokeColor = None, bars0_strokeWidth = None,
      barLabels_nudge = None, barLabelFormat = None,
      barLabels_fontName = None, barLabels_fontSize = None\<rparr>"

text \<open>
  \<^verbatim>\<open>String(x, y, text, textAnchor=..., fontName=..., fontSize=...)\<close> and the chart are
  the two shapes the script adds to a drawing.
\<close>

datatype shape =
    ChartShape bar_chart
  | StringShape int int string string string int

text \<open>
  The flowables. \<open>Table\<close> holds the cell texts row by row, the column widths and the
  style commands; \<open>Drawing\<close> holds its width, its height and its shapes in the order
  they were added.
\<close>

datatype flowable =
    Spacer int pyfloat
  | Paragraph string pstyle
  | PageBreak
  | Table "string list list" "pyfloat list" "table_cmd list"
  | Drawing int int "shape list"

fun setStyle :: "flowable \<Rightarrow> table_cmd list \<Rightarrow> flowable" where
  "setStyle (Table cells widths cmds) new = Table cells widths (cmds @ new)"
| "setStyle f new = f"

fun drawing_add :: "flowable \<Rightarrow> shape \<Rightarrow> flowable" where
  "drawing_add (Drawing w h shapes) sh = Drawing w h (shapes @ [sh])"
| "drawing_add f sh = f"

text \<open>\<^verbatim>\<open>reportlab.lib.units.inch\<close> is the float 72.0, a point count.\<close>

definition inch :: pyfloat where
  "inch = float_lit 72 1"

text \<open>
  What the bar chart draws, as the library documents it: one bar for each value of a
  series, at the category of the same position, and above it the label format applied
  to the value. \<open>chart_bars\<close> gives the bars of the first series as (category name,
  value, label text); the only label format the script uses is \<^verbatim>\<open>"%d"\<close>.
\<close>

definition bar_label :: "string option \<Rightarrow> int \<Rightarrow> string option" where
  "bar_label fmt v = (if fmt = Some ''%d'' then Some (percent_d v) else None)"

definition chart_bars :: "bar_chart \<Rightarrow> (string \<times> int \<times> string option) list" where
  "chart_bars c =
     (case chart_data c of
        [] \<Rightarrow> []
      | series # _ \<Rightarrow>
          map (\<lambda>(name, v). (name, v, bar_label (barLabelFormat c) v))
              (zip (categoryAxis_categoryNames c) series))"

section \<open>The script\<close>

subsection \<open>Module globals\<close>

text \<open>
  The module-level names the routines read. \<open>QUARTERLY_DATA\<close> is a list of tuples
  (quarter, revenue in millions, net income in millions, earnings per share). A
  routine takes the globals and returns them with its result, so that what it leaves
  in them is part of what it computes.
\<close>

type_synonym path = "string list"

type_synonym quarter = "string \<times> int \<times> int \<times> pyfloat"

record globals =
  OUTPUT_DIR :: path
  OUTPUT_PDF :: path
  COMPANY :: string
  YEAR :: int
  QUARTERLY_DATA :: "quarter list"

definition shipped_data :: "quarter list" where
  "shipped_data =
     [(''Q1 2024'', 2105, 312, float_lit 156 100),
      (''Q2 2024'', 2498, 389, float_lit 195 100),
      (''Q3 2024'', 2847, 456, float_lit 228 100),
      (''Q4 2024'', 3102, 521, float_lit 261 100)]"

text \<open>The globals after the module body has run, for a script in directory \<open>here\<close>.\<close>

definition module_globals :: "path \<Rightarrow> globals" where
  "module_globals here =
     \<lparr>OUTPUT_DIR = here @ [''data''],
      OUTPUT_PDF = here @ [''data''] @ [''sample_financial_report.pdf''],
      COMPANY = ''Acme Corp'',
      YEAR = 2024,
      QUARTERLY_DATA = shipped_data\<rparr>"

type_synonym 'a run = "globals \<Rightarrow> (py_error + 'a) \<times> globals"

definition seq :: "'a run \<Rightarrow> ('a \<Rightarrow> 'b run) \<Rightarrow> 'b run" where
  "seq m f g = (case m g of (Inl e, g') \<Rightarrow> (Inl e, g') | (Inr v, g') \<Rightarrow> f v g')"

definition done_with :: "'a \<Rightarrow> 'a run" where
  "done_with v g = (Inr v, g)"

subsection \<open>\<^verbatim>\<open>build_styles\<close>\<close>

text \<open>
  \<^verbatim>\<open>styles.add(ParagraphStyle(name=n, parent=styles[p], **kw))\<close>: the parent is looked
  up first, then the new style is added. \<open>sample\<close> is the sheet that the library's
  \<^verbatim>\<open>getSampleStyleSheet()\<close> returns.
\<close>

definition add_style ::
  "string \<Rightarrow> string \<Rightarrow> (string \<times> prop_value) list \<Rightarrow> stylesheet \<Rightarrow> py_error + stylesheet" where
  "add_style n p kw styles =
     and_then (sheet_get styles p) (\<lambda>par. sheet_add styles (ParagraphStyle n (Some par) kw))"

definition cover_title_kw :: "(string \<times> prop_value) list" where
  "cover_title_kw =
     [(''fontSize'', IntV 28), (''leading'', IntV 34), (''alignment'', AlignV TA_CENTER),
      (''spaceAfter'', IntV 20)]"

definition cover_subtitle_kw :: "(string \<times> prop_value) list" where
  "cover_subtitle_kw =
     [(''fontSize'', IntV 16), (''alignment'', AlignV TA_CENTER),
      (''textColor'', ColorV (HexColor ''#555555'')), (''spaceAfter'', IntV 40)]"

definition body_justified_kw :: "(string \<times> prop_value) list" where
  "body_justified_kw =
     [(''alignment'', AlignV TA_JUSTIFY), (''fontSize'', IntV 11), (''leading'', IntV 15),
      (''spaceAfter'', IntV 12)]"

definition section_head_kw :: "(string \<times> prop_value) list" where
  "section_head_kw =
     [(''fontSize'', IntV 16), (''spaceAfter'', IntV 10), (''spaceBefore'', IntV 20)]"

definition table_caption_kw :: "(string \<times> prop_value) list" where
  "table_caption_kw =
     [(''fontSize'', IntV 10), (''alignment'', AlignV TA_CENTER),
      (''textColor'', ColorV (HexColor ''#666666'')), (''spaceBefore'', IntV 6),
      (''spaceAfter'', IntV 16)]"

definition build_styles :: "stylesheet \<Rightarrow> py_error + stylesheet" where
  "build_styles sample =
     and_then (add_style ''CoverTitle'' ''Title'' cover_title_kw sample) (\<lambda>s1.
     and_then (add_style ''CoverSubtitle'' ''Heading2'' cover_subtitle_kw s1) (\<lambda>s2.
     and_then (add_style ''BodyJustified'' ''BodyText'' body_justified_kw s2) (\<lambda>s3.
     and_then (add_style ''SectionHead'' ''Heading2'' section_head_kw s3) (\<lambda>s4.
     add_style ''TableCaption'' ''Normal'' table_caption_kw s4))))"

subsection \<open>\<^verbatim>\<open>cover_page\<close>\<close>

definition cover_page :: "stylesheet \<Rightarrow> flowable list run" where
  "cover_page styles g =
     (and_then (sheet_get styles ''CoverTitle'') (\<lambda>title.
      and_then (sheet_get styles ''CoverSubtitle'') (\<lambda>sub1.
      and_then (sheet_get styles ''CoverSubtitle'') (\<lambda>sub2.
        Inr [Spacer 1 (fmul (float_of_int 2) inch),
             Paragraph (COMPANY g) title,
             Paragraph (''Quarterly Earnings Report &mdash; Fiscal Year '' @ str_int (YEAR g)) sub1,
             Spacer 1 (fmul (float_lit 5 10) inch),
             Paragraph (''Prepared for Investors and Analysts<br/>'' @
                        ''Published: January 15, 2025'') sub2,
             PageBreak]))),
      g)"

subsection \<open>\<^verbatim>\<open>narrative_section\<close>\<close>

definition narrative_p1 :: "globals \<Rightarrow> string" where
  "narrative_p1 g =
     COMPANY g @ '' delivered record-breaking results in fiscal year '' @ str_int (YEAR g) @ '', '' @
     ''driven by strong demand across our cloud computing and enterprise '' @
     ''AI product lines. Total annual revenue reached $10,552 million, '' @
     ''representing year-over-year growth of 34%. The company continued to '' @
     ''invest in next-generation GPU architectures and expanded its data '' @
     ''centre footprint in three new regions.''"

definition narrative_p2 :: string where
  "narrative_p2 =
     ''Third-quarter performance was particularly notable, with revenue of '' @
     ''$2,847 million and net income of $456 million. This was driven by '' @
     ''a 42% increase in data-centre revenue and the successful launch of '' @
     ''our new inference acceleration platform. Earnings per share for Q3 '' @
     ''came in at $2.28, exceeding consensus estimates by $0.12.''"

definition narrative_p3 :: string where
  "narrative_p3 =
     ''Looking ahead, management expects continued momentum in Q1 2025, '' @
     ''with revenue guidance of $3,300 &ndash; $3,500 million. The company '' @
     ''announced a $2 billion share repurchase programme and increased its '' @
     ''quarterly dividend by 15%.''"

definition narrative_section :: "stylesheet \<Rightarrow> flowable list run" where
  "narrative_section styles g =
     (and_then (sheet_get styles ''SectionHead'') (\<lambda>head.
      and_then (sheet_get styles ''BodyJustified'') (\<lambda>b1.
      and_then (sheet_get styles ''BodyJustified'') (\<lambda>b2.
      and_then (sheet_get styles ''BodyJustified'') (\<lambda>b3.
        Inr [Paragraph ''Executive Summary'' head,
             Paragraph (narrative_p1 g) b1,
             Paragraph narrative_p2 b2,
             Paragraph narrative_p3 b3,
             Spacer 1 (fmul (float_lit 3 10) inch)])))),
      g)"

subsection \<open>\<^verbatim>\<open>financial_table\<close>\<close>

text \<open>
  The local variables of the routine that hold the table's content:
  \<^verbatim>\<open>header\<close>, the comprehension \<^verbatim>\<open>rows\<close>, the three totals, the totals row that is
  appended to \<^verbatim>\<open>rows\<close>, and \<^verbatim>\<open>table_data\<close>.
\<close>

definition header :: "string list" where
  "header = [''Quarter'', ''Revenue ($M)'', ''Net Income ($M)'', ''EPS ($)'']"

definition data_row :: "quarter \<Rightarrow> string list" where
  "data_row r = (case r of (q, revenue, ni, eps) \<Rightarrow>
     [q, format_comma revenue, format_comma ni, format_f 2 eps])"

definition data_rows :: "globals \<Rightarrow> string list list" where
  "data_rows g = map data_row (QUARTERLY_DATA g)"

definition total_rev :: "globals \<Rightarrow> int" where
  "total_rev g = sum_int (map (\<lambda>r. fst (snd r)) (QUARTERLY_DATA g))"

definition total_ni :: "globals \<Rightarrow> int" where
  "total_ni g = sum_int (map (\<lambda>r. fst (snd (snd r))) (QUARTERLY_DATA g))"

definition total_eps :: "globals \<Rightarrow> pyfloat" where
  "total_eps g = sum_float (map (\<lambda>r. snd (snd (snd r))) (QUARTERLY_DATA g))"

definition totals_row :: "globals \<Rightarrow> string list" where
  "totals_row g =
     [''FY 2024 Total'', format_comma (total_rev g), format_comma (total_ni g),
      format_f 2 (total_eps g)]"

definition table_data :: "globals \<Rightarrow> string list list" where
  "table_data g = [header] @ (data_rows g @ [totals_row g])"

definition table_style :: "table_cmd list" where
  "table_style =
     [(''BACKGROUND'', (0, 0), (- 1, 0), [ColorA (HexColor ''#76B900'')]),
      (''TEXTCOLOR'', (0, 0), (- 1, 0), [ColorA white]),
      (''FONTNAME'', (0, 0), (- 1, 0), [StrA ''Helvetica-Bold'']),
      (''FONTSIZE'', (0, 0), (- 1, 0), [IntA 11]),
      (''ALIGN'', (0, 0), (- 1, 0), [StrA ''CENTER'']),
      (''BOTTOMPADDING'', (0, 0), (- 1, 0), [IntA 10]),
      (''TOPPADDING'', (0, 0), (- 1, 0), [IntA 10]),
      (''FONTNAME'', (0, 1), (- 1, - 1), [StrA ''Helvetica'']),
      (''FONTSIZE'', (0, 1), (- 1, - 1), [IntA 10]),
      (''ALIGN'', (1, 1), (- 1, - 1), [StrA ''RIGHT'']),
      (''ALIGN'', (0, 1), (0, - 1), [StrA ''LEFT'']),
      (''BOTTOMPADDING'', (0, 1), (- 1, - 1), [IntA 7]),
      (''TOPPADDING'', (0, 1), (- 1, - 1), [IntA 7]),
      (''BACKGROUND'', (0, 1), (- 1, 1), [ColorA (HexColor ''#F5F5F5'')]),
      (''BACKGROUND'', (0, 3), (- 1, 3), [ColorA (HexColor ''#F5F5F5'')]),
      (''BACKGROUND'', (0, 5), (- 1, 5), [ColorA (HexColor ''#E8E8E8'')]),
      (''FONTNAME'', (0, - 1), (- 1, - 1), [StrA ''Helvetica-Bold'']),
      (''GRID'', (0, 0), (- 1, - 1), [FloatA (float_lit 5 10), ColorA (HexColor ''#CCCCCC'')]),
      (''LINEBELOW'', (0, 0), (- 1, 0), [FloatA (float_lit 15 10), ColorA (HexColor ''#333333'')]),
      (''LINEABOVE'', (0, - 1), (- 1, - 1), [IntA 1, ColorA (HexColor ''#333333'')])]"

definition col_widths :: "pyfloat list" where
  "col_widths =
     [fmul (float_lit 16 10) inch, fmul (float_lit 15 10) inch,
      fmul (float_lit 16 10) inch, fmul (float_lit 12 10) inch]"

definition table_caption :: "globals \<Rightarrow> string" where
  "table_caption g =
     ''Table 1: '' @ COMPANY g @ '' Quarterly Financial Highlights, FY '' @ str_int (YEAR g)"

definition financial_table :: "stylesheet \<Rightarrow> flowable list run" where
  "financial_table styles g =
     (and_then (sheet_get styles ''SectionHead'') (\<lambda>head.
      and_then (sheet_get styles ''TableCaption'') (\<lambda>cap.
        Inr [Paragraph ''Quarterly Financial Highlights'' head,
             setStyle (Table (table_data g) col_widths []) table_style,
             Paragraph (table_caption g) cap])),
      g)"

subsection \<open>\<^verbatim>\<open>revenue_chart\<close>\<close>

text \<open>The em dash of the chart title, in UTF-8.\<close>

definition em_dash :: string where
  "em_dash = [CHR 0xE2, CHR 0x80, CHR 0x94]"

definition revenues :: "globals \<Rightarrow> int list" where
  "revenues g = map (\<lambda>r. fst (snd r)) (QUARTERLY_DATA g)"

definition chart :: "globals \<Rightarrow> bar_chart" where
  "chart g =
     VerticalBarChart
       \<lparr>chart_x := Some 60,
        chart_y := Some 40,
        chart_width := Some 350,
        chart_height := Some 180,
        chart_data := [revenues g],
        categoryAxis_categoryNames := map fst (QUARTERLY_DATA g),
        categoryAxis_labels_fontName := Some ''Helvetica'',
        categoryAxis_labels_fontSize := Some 9,
        valueAxis_valueMin := Some 0,
        valueAxis_valueMax := Some 3500,
        valueAxis_valueStep := Some 500,
        valueAxis_labels_fontName := Some ''Helvetica'',
        valueAxis_labels_fontSize := Some 9,
        bars0_fillColor := Some (HexColor ''#76B900''),
        bars0_strokeColor := Some (HexColor ''#5A8F00''),
        bars0_strokeWidth := Some (float_lit 5 10),
        barLabels_nudge := Some 10,
        barLabelFormat := Some ''%d'',
        barLabels_fontName := Some ''Helvetica-Bold'',
        barLabels_fontSize := Some 9\<rparr>"

definition chart_title :: "globals \<Rightarrow> shape" where
  "chart_title g =
     StringShape 225 240
       (COMPANY g @ '' Quarterly Revenue ($M) '' @ em_dash @ '' FY '' @ str_int (YEAR g))
       ''middle'' ''Helvetica-Bold'' 11"

definition revenue_chart :: "flowable run" where
  "revenue_chart g =
     (Inr (drawing_add (drawing_add (Drawing 450 260 []) (ChartShape (chart g))) (chart_title g)),
      g)"

subsection \<open>\<^verbatim>\<open>build_pdf\<close>: the assembly of the flowables\<close>

text \<open>
  \<open>build_elements\<close> is the part of \<^verbatim>\<open>build_pdf\<close> from \<^verbatim>\<open>styles = build_styles()\<close>
  to the last \<^verbatim>\<open>elements.append\<close>: it gives the list \<^verbatim>\<open>elements\<close> that is handed to
  the layout engine.
\<close>

definition figure_caption :: "globals \<Rightarrow> string" where
  "figure_caption g =
     ''Figure 1: '' @ COMPANY g @ '' Quarterly Revenue Trend, FY '' @ str_int (YEAR g)"

definition build_elements :: "stylesheet \<Rightarrow> flowable list run" where
  "build_elements sample =
     seq (\<lambda>g. (build_styles sample, g)) (\<lambda>styles.
     seq (cover_page styles) (\<lambda>cover.
     seq (narrative_section styles) (\<lambda>narrative.
     seq (financial_table styles) (\<lambda>table.
     seq (\<lambda>g. (sheet_get styles ''SectionHead'', g)) (\<lambda>head.
     seq revenue_chart (\<lambda>drawing.
     seq (\<lambda>g. (and_then (sheet_get styles ''TableCaption'')
                   (\<lambda>cap. Inr (Paragraph (figure_caption g) cap)), g)) (\<lambda>caption.
     done_with
       (cover @ narrative @ table @
        [Spacer 1 (fmul (float_lit 4 10) inch)] @
        [Paragraph ''Revenue Trend'' head] @ [drawing] @ [caption]))))))))"

section \<open>The file system and the run\<close>

text \<open>
  A file system maps a path (the list of its components from the root, the root being
  the empty list) to a directory or to a file with its bytes. Each node carries one
  permission flag: whether the process may write to it (for a directory: create an entry
  in it). Search permission, links and devices are not modelled.
\<close>

datatype node = Dir bool | File bool string

type_synonym filesystem = "path \<rightharpoonup> node"






text \<open>
  Opening a path for writing and writing the bytes. The path must not be a directory and
  its parent must be one. An existing file is replaced when the process may write to it;
  a new file is created when the process may write to the directory.
\<close>

definition write_file :: "path \<Rightarrow> string \<Rightarrow> filesystem \<Rightarrow> py_error + filesystem" where
  "write_file p bytes fs =
     (case fs p of
        Some (Dir _) \<Rightarrow> Inl IsADirectoryError
      | Some (File wr _) \<Rightarrow>
          (case fs (butlast p) of
             None \<Rightarrow> Inl FileNotFoundError
           | Some (File _ _) \<Rightarrow> Inl NotADirectoryError
           | Some (Dir _) \<Rightarrow>
               if wr then Inr (fs(p \<mapsto> File True bytes)) else Inl PermissionError)
      | None \<Rightarrow>
          (case fs (butlast p) of
             None \<Rightarrow> Inl FileNotFoundError
           | Some (File _ _) \<Rightarrow> Inl NotADirectoryError
           | Some (Dir wr) \<Rightarrow>
               if wr then Inr (fs(p \<mapsto> File True bytes)) else Inl PermissionError))"

text \<open>\<^verbatim>\<open>str(path)\<close> of an absolute path.\<close>

definition path_str :: "path \<Rightarrow> string" where
  "path_str p = concat (map (\<lambda>c. CHR ''/'' # c) p)"

record world =
  fs :: filesystem
  stdout :: "string list"

text \<open>
  \<^verbatim>\<open>SimpleDocTemplate(str(OUTPUT_PDF), pagesize=letter, leftMargin=inch, ...)\<close>.
  \<^verbatim>\<open>letter\<close> is 8.5 by 11 inches.
\<close>

record doc_template =
  filename :: string
  pagesize :: "pyfloat \<times> pyfloat"
  leftMargin :: pyfloat
  rightMargin :: pyfloat
  topMargin :: pyfloat
  bottomMargin :: pyfloat

definition letter :: "pyfloat \<times> pyfloat" where
  "letter = (fmul (float_lit 85 10) inch, fmul (float_of_int 11) inch)"

text \<open>
  The layout engine turns the template and the flowables into the bytes of the
  document, or raises; it is a parameter of the run. \<^verbatim>\<open>doc.build(elements)\<close> lays the
  document out and then writes the bytes to the template's file.
\<close>

type_synonym layout_engine = "doc_template \<Rightarrow> flowable list \<Rightarrow> py_error + string"

text \<open>The check mark that starts the first line printed, in UTF-8.\<close>

definition check_mark :: string where
  "check_mark = [CHR 0xE2, CHR 0x9C, CHR 0x85]"

text \<open>
  The two lines printed after the build. The size reported is that of the file just
  written; \<^verbatim>\<open>size / 1024\<close> is the correctly rounded quotient.
\<close>

definition report_lines :: "globals \<Rightarrow> nat \<Rightarrow> string list" where
  "report_lines g nbytes =
     [check_mark @ '' Sample financial report created: '' @ path_str (OUTPUT_PDF g),
      ''   File size: '' @ format_f 1 (round_ratio False nbytes 1024 0) @ '' KB'']"

definition doc :: "globals \<Rightarrow> doc_template" where
  "doc g =
     \<lparr>filename = path_str (OUTPUT_PDF g), pagesize = letter,
      leftMargin = inch, rightMargin = inch, topMargin = inch, bottomMargin = inch\<rparr>"

definition build_pdf ::
  "stylesheet \<Rightarrow> layout_engine \<Rightarrow> globals \<Rightarrow> world \<Rightarrow> (py_error + unit) \<times> globals \<times> world" where
  "build_pdf sample engine g w =
     (case build_elements sample g of
        (Inl e, g') \<Rightarrow> (Inl e, g', w)
      | (Inr elements, g') \<Rightarrow>
          (case engine (doc g) elements of
             Inl e \<Rightarrow> (Inl e, g', w)
           | Inr bytes \<Rightarrow>
               (case write_file (OUTPUT_PDF g') bytes (fs w) of
                  Inl e \<Rightarrow> (Inl e, g', w)
                | Inr fs' \<Rightarrow>
                    (Inr (), g',
                     w\<lparr>fs := fs', stdout := stdout w @ report_lines g' (length bytes)\<rparr>))))"


section \<open>Notions used to state the properties\<close>

subsection \<open>The style sheet after \<^verbatim>\<open>build_styles\<close>\<close>

text \<open>
  What the script needs of the library's sample sheet: it has the four parent styles and
  none of the five names the script adds.
\<close>

definition usable_sample :: "stylesheet \<Rightarrow> bool" where
  "usable_sample sample \<longleftrightarrow>
     sample ''Title'' \<noteq> None \<and> sample ''Heading2'' \<noteq> None \<and>
     sample ''BodyText'' \<noteq> None \<and> sample ''Normal'' \<noteq> None \<and>
     sample ''CoverTitle'' = None \<and> sample ''CoverSubtitle'' = None \<and>
     sample ''BodyJustified'' = None \<and> sample ''SectionHead'' = None \<and>
     sample ''TableCaption'' = None"

text \<open>The five styles of the script, over a given sample sheet, and the sheet holding them.\<close>

definition CoverTitle :: "stylesheet \<Rightarrow> pstyle" where
  "CoverTitle sample = ParagraphStyle ''CoverTitle'' (sample ''Title'') cover_title_kw"

definition CoverSubtitle :: "stylesheet \<Rightarrow> pstyle" where
  "CoverSubtitle sample = ParagraphStyle ''CoverSubtitle'' (sample ''Heading2'') cover_subtitle_kw"

definition BodyJustified :: "stylesheet \<Rightarrow> pstyle" where
  "BodyJustified sample = ParagraphStyle ''BodyJustified'' (sample ''BodyText'') body_justified_kw"

definition SectionHead :: "stylesheet \<Rightarrow> pstyle" where
  "SectionHead sample = ParagraphStyle ''SectionHead'' (sample ''Heading2'') section_head_kw"

definition TableCaption :: "stylesheet \<Rightarrow> pstyle" where
  "TableCaption sample = ParagraphStyle ''TableCaption'' (sample ''Normal'') table_caption_kw"

definition built_styles :: "stylesheet \<Rightarrow> stylesheet" where
  "built_styles sample =
     sample(''CoverTitle'' \<mapsto> CoverTitle sample,
            ''CoverSubtitle'' \<mapsto> CoverSubtitle sample,
            ''BodyJustified'' \<mapsto> BodyJustified sample,
            ''SectionHead'' \<mapsto> SectionHead sample,
            ''TableCaption'' \<mapsto> TableCaption sample)"

subsection \<open>The content blocks, in the words of the specification\<close>

text \<open>
  The specification names four blocks: the cover (title, subtitle, contact and
  publication line, forced page break), the narrative (three paragraphs), the table with
  its caption, and the chart drawing (chart and overlaid title) with its caption. The
  script puts spacers and section headings between and around them.
\<close>

fun is_spacing :: "flowable \<Rightarrow> bool" where
  "is_spacing (Spacer _ _) = True"
| "is_spacing _ = False"

fun is_heading :: "flowable \<Rightarrow> bool" where
  "is_heading (Paragraph _ (ParagraphStyle n _ _)) = (n = ''SectionHead'')"
| "is_heading _ = False"

definition cover_block :: "stylesheet \<Rightarrow> globals \<Rightarrow> flowable list" where
  "cover_block sample g =
     [Paragraph (COMPANY g) (CoverTitle sample),
      Paragraph (''Quarterly Earnings Report &mdash; Fiscal Year '' @ str_int (YEAR g))
        (CoverSubtitle sample),
      Paragraph ''Prepared for Investors and Analysts<br/>Published: January 15, 2025''
        (CoverSubtitle sample),
      PageBreak]"

definition narrative_block :: "stylesheet \<Rightarrow> globals \<Rightarrow> flowable list" where
  "narrative_block sample g =
     [Paragraph (narrative_p1 g) (BodyJustified sample),
      Paragraph narrative_p2 (BodyJustified sample),
      Paragraph narrative_p3 (BodyJustified sample)]"

definition tabular_block :: "stylesheet \<Rightarrow> globals \<Rightarrow> flowable list" where
  "tabular_block sample g =
     [Table (table_data g) col_widths table_style,
      Paragraph (table_caption g) (TableCaption sample)]"

definition chart_block :: "stylesheet \<Rightarrow> globals \<Rightarrow> flowable list" where
  "chart_block sample g =
     [Drawing 450 260 [ChartShape (chart g), chart_title g],
      Paragraph (figure_caption g) (TableCaption sample)]"

subsection \<open>Reading the cells of the table back\<close>

text \<open>
  The number that a cell shows, in hundredths: after an optional minus sign the commas
  are dropped, the digits before the point count hundreds of hundredths, up to two digits
  after it are the hundredths. \<open>sum_cells\<close> adds the numbers of a list of cells.
\<close>

definition is_digit :: "char \<Rightarrow> bool" where
  "is_digit c \<longleftrightarrow> c \<in> set ''0123456789''"

definition digit_value :: "char \<Rightarrow> nat option" where
  "digit_value c = map_of (zip ''0123456789'' [0, 1, 2, 3, 4, 5, 6, 7, 8, 9]) c"

fun read_digits :: "nat \<Rightarrow> string \<Rightarrow> nat option" where
  "read_digits acc [] = Some acc"
| "read_digits acc (c # cs) =
     (case digit_value c of None \<Rightarrow> None | Some d \<Rightarrow> read_digits (10 * acc + d) cs)"

definition unsigned :: "string \<Rightarrow> string" where
  "unsigned s = (if take 1 s = ''-'' then drop 1 s else s)"

definition cell_cents :: "string \<Rightarrow> int option" where
  "cell_cents s =
     (let t = filter (\<lambda>c. c \<noteq> CHR '','') (unsigned s);
          whole = takeWhile (\<lambda>c. c \<noteq> CHR ''.'') t;
          frac = drop 1 (dropWhile (\<lambda>c. c \<noteq> CHR ''.'') t)
      in if whole = [] \<or> length frac > 2 then None
         else case (read_digits 0 whole, read_digits 0 (take 2 (frac @ ''00''))) of
                (Some a, Some b) \<Rightarrow>
                  Some ((if take 1 s = ''-'' then - 1 else 1) * int (100 * a + b))
              | _ \<Rightarrow> None)"

fun sum_cells :: "string list \<Rightarrow> int option" where
  "sum_cells [] = Some 0"
| "sum_cells (s # ss) =
     (case (cell_cents s, sum_cells ss) of (Some a, Some b) \<Rightarrow> Some (a + b) | _ \<Rightarrow> None)"

subsection \<open>The two cell formats, in the words of the specification\<close>

text \<open>
  A thousands-separated integer: an optional minus sign, then digits with a comma after
  every third digit counted from the right and nowhere else, showing the integer.

  A two-decimal value: an optional minus sign, at least one digit, a point and exactly
  two digits, showing the value rounded to the nearest hundredth; \<open>m * 2^e\<close> is a
  double's magnitude, and the distance to it is measured in units of \<open>2^e\<close>.
\<close>

definition grouped_by_threes :: "string \<Rightarrow> bool" where
  "grouped_by_threes s \<longleftrightarrow>
     unsigned s \<noteq> [] \<and> is_digit (hd (unsigned s)) \<and>
     (\<forall>i < length (unsigned s).
        if i mod 4 = 3 then rev (unsigned s) ! i = CHR '','' else is_digit (rev (unsigned s) ! i))"

definition thousands_separated :: "string \<Rightarrow> int \<Rightarrow> bool" where
  "thousands_separated s n \<longleftrightarrow>
     grouped_by_threes s \<and> (take 1 s = ''-'') = (n < 0) \<and> cell_cents s = Some (100 * n)"

definition two_decimal_shape :: "string \<Rightarrow> bool" where
  "two_decimal_shape s \<longleftrightarrow>
     (let whole = takeWhile (\<lambda>c. c \<noteq> CHR ''.'') (unsigned s);
          rest = dropWhile (\<lambda>c. c \<noteq> CHR ''.'') (unsigned s)
      in whole \<noteq> [] \<and> list_all is_digit whole \<and> length rest = 3 \<and>
         list_all is_digit (drop 1 rest))"

fun two_decimals :: "string \<Rightarrow> pyfloat \<Rightarrow> bool" where
  "two_decimals s (Fin sg m e) \<longleftrightarrow>
     two_decimal_shape s \<and> (take 1 s = ''-'') = sg \<and>
     (case cell_cents s of
        None \<Rightarrow> False
      | Some c \<Rightarrow>
          2 * \<bar>c * int (pow2 (- e)) - (if sg then - 1 else 1) * 100 * int (m * pow2 e)\<bar>
            \<le> int (pow2 (- e)))"
| "two_decimals s _ \<longleftrightarrow> False"

fun finite_float :: "pyfloat \<Rightarrow> bool" where
  "finite_float (Fin _ _ _) = True"
| "finite_float _ = False"

subsection \<open>Concrete inputs\<close>

text \<open>
  A sample sheet with the four parent styles, a layout engine that always succeeds, a
  script directory, and a file system that holds the script and nothing else.
\<close>

definition sample_sheet :: stylesheet where
  "sample_sheet =
     [''Normal'' \<mapsto> ParagraphStyle ''Normal'' None [],
      ''BodyText'' \<mapsto> ParagraphStyle ''BodyText'' None [(''spaceBefore'', IntV 6)],
      ''Title'' \<mapsto> ParagraphStyle ''Title'' None [(''fontSize'', IntV 18)],
      ''Heading2'' \<mapsto> ParagraphStyle ''Heading2'' None [(''fontSize'', IntV 14)]]"

definition plain_engine :: layout_engine where
  "plain_engine d elements = Inr (''%PDF '' @ filename d)"

definition script_dir :: path where
  "script_dir = [''srv'', ''blogdemo'']"

definition fresh_fs :: filesystem where
  "fresh_fs =
     [[] \<mapsto> Dir False,
      [''srv''] \<mapsto> Dir False,
      [''srv'', ''blogdemo''] \<mapsto> Dir True,
      [''srv'', ''blogdemo'', ''generate_sample_pdf.py''] \<mapsto> File True ''#!/usr/bin/env python3'']"


text \<open>
  The same file system once the output directory exists, the bytes that \<open>plain_engine\<close>
  produces for the script's template, and the world after one and after two runs.
\<close>

definition ready_world :: world where
  "ready_world = \<lparr>fs = fresh_fs(script_dir @ [''data''] \<mapsto> Dir True), stdout = []\<rparr>"

definition shipped_bytes :: string where
  "shipped_bytes = ''%PDF /srv/blogdemo/data/sample_financial_report.pdf''"

definition written_world :: world where
  "written_world =
     \<lparr>fs = fresh_fs(script_dir @ [''data''] \<mapsto> Dir True,
                    script_dir @ [''data''] @ [''sample_financial_report.pdf''] \<mapsto>
                      File True shipped_bytes),
      stdout = report_lines (module_globals script_dir) (length shipped_bytes)\<rparr>"

definition written_again :: world where
  "written_again =
     written_world\<lparr>stdout := stdout written_world @
        report_lines (module_globals script_dir) (length shipped_bytes)\<rparr>"



text \<open>
  Another script directory, on a file system with other content and with lines already
  on the console, and the bytes that \<open>plain_engine\<close> produces there.
\<close>

definition other_dir :: path where
  "other_dir = [''tmp'', ''demo'']"

definition other_world :: world where
  "other_world =
     \<lparr>fs = [[] \<mapsto> Dir False,
             [''tmp''] \<mapsto> Dir True,
             [''tmp'', ''demo''] \<mapsto> Dir True,
             [''tmp'', ''demo'', ''data''] \<mapsto> Dir True,
             [''tmp'', ''demo'', ''data'', ''sample_financial_report.pdf''] \<mapsto>
               File True ''stale''],
      stdout = [''earlier output'']\<rparr>"

definition other_bytes :: string where
  "other_bytes = ''%PDF /tmp/demo/data/sample_financial_report.pdf''"

definition other_written :: world where
  "other_written =
     other_world
       \<lparr>fs := (fs other_world)(OUTPUT_PDF (module_globals other_dir) \<mapsto> File True other_bytes),
        stdout := stdout other_world @
          report_lines (module_globals other_dir) (length other_bytes)\<rparr>"

subsection \<open>The figures of the prose and the figures of the table\<close>







text \<open>The cell texts of the tables among a list of flowables.\<close>

fun table_cells :: "flowable list \<Rightarrow> string list list list" where
  "table_cells [] = []"
| "table_cells (Table cells _ _ # rest) = cells # table_cells rest"
| "table_cells (_ # rest) = table_cells rest"

section \<open>Evaluation of the shipped figures\<close>

declare fadd.simps [simp del] fmul.simps [simp del] format_f.simps [simp del]

text \<open>
  The four earnings-per-share literals as doubles, their running sum as \<^verbatim>\<open>sum\<close>
  forms it, and the renderings that the table needs. Each value is computed by
  rewriting with the definitions.
\<close>

lemma float_zero: "float_of_int 0 = Fin False 0 (- 1074)"
  by (simp add: float_of_int_def round_ratio_def)

lemma lit_1_56: "float_lit 156 100 = Fin False 7025615418697974 (- 52)"
  unfolding float_lit_def
  apply (simp add: round_ratio_def bitlen.simps Let_def)
  apply (simp add: pow2_def)
  apply (simp add: div_half_even_def Let_def)
  done

lemma lit_1_95: "float_lit 195 100 = Fin False 8782019273372467 (- 52)"
  unfolding float_lit_def
  apply (simp add: round_ratio_def bitlen.simps Let_def)
  apply (simp add: pow2_def)
  apply (simp add: div_half_even_def Let_def)
  done

lemma lit_2_28: "float_lit 228 100 = Fin False 5134103575202365 (- 51)"
  unfolding float_lit_def
  apply (simp add: round_ratio_def bitlen.simps Let_def)
  apply (simp add: pow2_def)
  apply (simp add: div_half_even_def Let_def)
  done

lemma lit_2_61: "float_lit 261 100 = Fin False 5877197513718497 (- 51)"
  unfolding float_lit_def
  apply (simp add: round_ratio_def bitlen.simps Let_def)
  apply (simp add: pow2_def)
  apply (simp add: div_half_even_def Let_def)
  done

lemma eps_sum_2:
  "fadd (Fin False 7025615418697974 (- 52)) (Fin False 8782019273372467 (- 52)) =
   Fin False 7903817346035220 (- 51)"
  apply (simp add: fadd.simps scaled_def Let_def)
  apply (simp add: pow2_def)
  apply (simp add: round_ratio_def bitlen.simps Let_def)
  apply (simp add: pow2_def)
  apply (simp add: div_half_even_def Let_def)
  done

lemma eps_sum_3:
  "fadd (Fin False 7903817346035220 (- 51)) (Fin False 5134103575202365 (- 51)) =
   Fin False 6518960460618792 (- 50)"
  apply (simp add: fadd.simps scaled_def Let_def)
  apply (simp add: pow2_def)
  apply (simp add: round_ratio_def bitlen.simps Let_def)
  apply (simp add: pow2_def)
  apply (simp add: div_half_even_def Let_def)
  done

lemma eps_sum_4:
  "fadd (Fin False 6518960460618792 (- 50)) (Fin False 5877197513718497 (- 51)) =
   Fin False 4728779608739020 (- 49)"
  apply (simp add: fadd.simps scaled_def Let_def)
  apply (simp add: pow2_def)
  apply (simp add: round_ratio_def bitlen.simps Let_def)
  apply (simp add: pow2_def)
  apply (simp add: div_half_even_def Let_def)
  done

lemma shipped_eps_sum:
  "sum_float (map (\<lambda>r. snd (snd (snd r))) shipped_data) = Fin False 4728779608739020 (- 49)"
proof -
  have "sum_float (map (\<lambda>r. snd (snd (snd r))) shipped_data) =
        fadd (fadd (fadd (fadd (Fin False 0 (- 1074)) (Fin False 7025615418697974 (- 52)))
                (Fin False 8782019273372467 (- 52)))
                (Fin False 5134103575202365 (- 51)))
                (Fin False 5877197513718497 (- 51))"
    by (simp only: sum_float_def shipped_data_def list.map snd_conv foldl.simps
                   float_zero lit_1_56 lit_1_95 lit_2_28 lit_2_61)
  also have "fadd (Fin False 0 (- 1074)) (Fin False 7025615418697974 (- 52)) =
             Fin False 7025615418697974 (- 52)"
    by (simp add: fadd.simps)
  finally show ?thesis
    by (simp only: eps_sum_2 eps_sum_3 eps_sum_4)
qed

lemma format_total_eps: "format_f 2 (Fin False 4728779608739020 (- 49)) = ''8.40''"
  apply (simp add: format_f.simps pow2_def Let_def)
  apply (simp add: div_half_even_def Let_def)
  apply (simp add: str_nat.simps digit_char_def pad_left_def)
  done

lemma shipped_total_rev: "sum_int (map (\<lambda>r. fst (snd r)) shipped_data) = 10552"
  by (simp add: sum_int_def shipped_data_def)

lemma shipped_total_ni: "sum_int (map (\<lambda>r. fst (snd (snd r))) shipped_data) = 1678"
  by (simp add: sum_int_def shipped_data_def)

lemma format_1_56: "format_f 2 (Fin False 7025615418697974 (- 52)) = ''1.56''"
  apply (simp add: format_f.simps pow2_def Let_def)
  apply (simp add: div_half_even_def Let_def)
  apply (simp add: str_nat.simps digit_char_def pad_left_def)
  done

lemma format_1_95: "format_f 2 (Fin False 8782019273372467 (- 52)) = ''1.95''"
  apply (simp add: format_f.simps pow2_def Let_def)
  apply (simp add: div_half_even_def Let_def)
  apply (simp add: str_nat.simps digit_char_def pad_left_def)
  done

lemma format_2_28: "format_f 2 (Fin False 5134103575202365 (- 51)) = ''2.28''"
  apply (simp add: format_f.simps pow2_def Let_def)
  apply (simp add: div_half_even_def Let_def)
  apply (simp add: str_nat.simps digit_char_def pad_left_def)
  done

lemma format_2_61: "format_f 2 (Fin False 5877197513718497 (- 51)) = ''2.61''"
  apply (simp add: format_f.simps pow2_def Let_def)
  apply (simp add: div_half_even_def Let_def)
  apply (simp add: str_nat.simps digit_char_def pad_left_def)
  done

lemma format_ints:
  "format_comma 2105 = ''2,105''" "format_comma 2498 = ''2,498''"
  "format_comma 2847 = ''2,847''" "format_comma 3102 = ''3,102''"
  "format_comma 312 = ''312''" "format_comma 389 = ''389''"
  "format_comma 456 = ''456''" "format_comma 521 = ''521''"
  "format_comma 10552 = ''10,552''" "format_comma 1678 = ''1,678''"
  "format_comma 2900 = ''2,900''" "format_comma 470 = ''470''"
  "format_comma 10605 = ''10,605''" "format_comma 1692 = ''1,692''"
  by (simp_all add: format_comma_def str_nat.simps digit_char_def)

lemma shipped_rows:
  "data_rows (module_globals here) =
     [[''Q1 2024'', ''2,105'', ''312'', ''1.56''],
      [''Q2 2024'', ''2,498'', ''389'', ''1.95''],
      [''Q3 2024'', ''2,847'', ''456'', ''2.28''],
      [''Q4 2024'', ''3,102'', ''521'', ''2.61'']]"
  by (simp add: data_rows_def module_globals_def shipped_data_def data_row_def
        lit_1_56 lit_1_95 lit_2_28 lit_2_61 format_1_56 format_1_95 format_2_28 format_2_61
        format_ints)

lemma shipped_totals_row:
  "totals_row (module_globals here) = [''FY 2024 Total'', ''10,552'', ''1,678'', ''8.40'']"
  by (simp add: totals_row_def total_rev_def total_ni_def total_eps_def module_globals_def
        shipped_total_rev shipped_total_ni shipped_eps_sum format_total_eps format_ints)

lemma foldl_add_int: "foldl (+) a xs = a + sum_list xs" for a :: int
  by (induction xs arbitrary: a) simp_all

lemma sum_int_sum_list: "sum_int xs = sum_list xs"
  by (simp add: sum_int_def foldl_add_int)

section \<open>The cell formats\<close>

text \<open>
  Digits written by \<open>str_nat\<close> are read back by \<open>read_digits\<close>; \<open>group3\<close> puts a comma
  after every third digit and nowhere else; \<open>div_half_even\<close> is within half a unit of
  the quotient. From these, both cell formats meet their descriptions for every integer
  and every finite double.
\<close>

lemma below_ten:
  fixes k :: nat
  assumes "k < 10"
  shows "k \<in> {0, 1, 2, 3, 4, 5, 6, 7, 8, 9}"
proof -
  from assms have "k = 0 \<or> k = 1 \<or> k = 2 \<or> k = 3 \<or> k = 4 \<or> k = 5 \<or> k = 6 \<or> k = 7 \<or>
      k = 8 \<or> k = 9"
    by arith
  then show ?thesis by blast
qed

lemma digit_char_cases:
  "digit_char d \<in> set ''0123456789''"
proof -
  have "d mod 10 \<in> {0, 1, 2, 3, 4, 5, 6, 7, 8, 9}"
    by (rule below_ten) simp
  then show ?thesis
    unfolding digit_char_def by (elim insertE emptyE) simp_all
qed

lemma is_digit_digit_char: "is_digit (digit_char d)"
  by (simp only: is_digit_def digit_char_cases)

lemma digit_value_digit_char: "digit_value (digit_char d) = Some (d mod 10)"
proof -
  have "d mod 10 \<in> {0, 1, 2, 3, 4, 5, 6, 7, 8, 9}"
    by (rule below_ten) simp
  then show ?thesis
    unfolding digit_char_def digit_value_def by (elim insertE emptyE) simp_all
qed

lemma is_digit_not_punct:
  assumes "is_digit c"
  shows "c \<noteq> CHR '',''" and "c \<noteq> CHR ''.''" and "c \<noteq> CHR ''-''"
  using assms by (auto simp: is_digit_def)

lemma str_nat_digits: "list_all is_digit (str_nat n)"
  by (induction n rule: str_nat.induct) (subst str_nat.simps, simp add: is_digit_digit_char)

lemma str_nat_nonempty: "str_nat n \<noteq> []"
  by (subst str_nat.simps) simp

lemma read_digits_snoc:
  "read_digits acc (cs @ [c]) =
     (case read_digits acc cs of
        None \<Rightarrow> None
      | Some v \<Rightarrow> (case digit_value c of None \<Rightarrow> None | Some d \<Rightarrow> Some (10 * v + d)))"
  by (induction cs arbitrary: acc) (simp_all split: option.splits)

lemma read_str_nat: "read_digits 0 (str_nat n) = Some n"
proof (induction n rule: str_nat.induct)
  case (1 n)
  show ?case
  proof (cases "n < 10")
    case True
    then show ?thesis
      by (subst str_nat.simps) (simp add: digit_value_digit_char)
  next
    case False
    with 1 have "read_digits 0 (str_nat (n div 10)) = Some (n div 10)" by simp
    with False show ?thesis
      by (subst str_nat.simps) (simp add: read_digits_snoc digit_value_digit_char)
  qed
qed

lemma read_leading_zeros: "read_digits 0 (replicate j CHR ''0'' @ ds) = read_digits 0 ds"
  by (induction j) (simp_all add: digit_value_def)

lemma read_padded: "read_digits 0 (pad_left p (str_nat k)) = Some k"
  by (simp add: pad_left_def read_leading_zeros read_str_nat)

lemma length_str_nat_small: "k < 100 \<Longrightarrow> length (str_nat k) \<le> 2"
  by (subst str_nat.simps, subst str_nat.simps) simp

lemma length_padded: "k < 100 \<Longrightarrow> length (pad_left 2 (str_nat k)) = 2"
  using length_str_nat_small [of k] by (simp add: pad_left_def)

lemma zeros_digits: "list_all is_digit (replicate j CHR ''0'')"
  by (induction j) (simp_all add: is_digit_def)

lemma padded_digits: "list_all is_digit (pad_left p (str_nat k))"
  by (simp add: pad_left_def str_nat_digits zeros_digits)


lemma group3_filter:
  "list_all is_digit xs \<Longrightarrow> filter (\<lambda>c. c \<noteq> CHR '','') (group3 xs) = xs"
  by (induction xs rule: group3.induct) (auto simp: is_digit_not_punct)

lemma group3_last: "xs \<noteq> [] \<Longrightarrow> group3 xs \<noteq> [] \<and> last (group3 xs) = last xs"
  by (induction xs rule: group3.induct) auto

lemma group3_places:
  "list_all is_digit xs \<Longrightarrow> i < length (group3 xs) \<Longrightarrow>
     (if i mod 4 = 3 then group3 xs ! i = CHR '','' else is_digit (group3 xs ! i))"
proof (induction xs arbitrary: i rule: group3.induct)
  case (1 a b c d ds)
  show ?case
  proof (cases "i < 4")
    case True
    then have "i = 0 \<or> i = 1 \<or> i = 2 \<or> i = 3" by arith
    with "1.prems" show ?thesis by auto
  next
    case False
    then obtain j where j: "i = j + 4" by (metis le_add_diff_inverse2 not_less)
    with "1.prems" have "j < length (group3 (d # ds))" and "list_all is_digit (d # ds)"
      by simp_all
    from "1.IH" [OF this(2) this(1)] j show ?thesis
      by (simp add: nth_Cons')
  qed
qed (auto simp: less_Suc_eq)

lemma unsigned_body:
  assumes "body \<noteq> []" and "is_digit (hd body)"
  shows "unsigned ((if neg then ''-'' else []) @ body) = body"
    and "(take 1 ((if neg then ''-'' else []) @ body) = ''-'') = neg"
  using assms by (cases body; auto simp: unsigned_def is_digit_def)+

lemma comma_body:
  fixes r :: int
  defines "body \<equiv> rev (group3 (rev (str_nat (nat \<bar>r\<bar>))))"
  shows "body \<noteq> []" and "is_digit (hd body)"
    and "filter (\<lambda>c. c \<noteq> CHR '','') body = str_nat (nat \<bar>r\<bar>)"
proof -
  let ?ds = "str_nat (nat \<bar>r\<bar>)"
  have ne: "rev ?ds \<noteq> []" by (simp add: str_nat_nonempty)
  from group3_last [OF ne] show "body \<noteq> []" by (simp add: body_def)
  have "hd body = last (group3 (rev ?ds))"
    using group3_last [OF ne] by (simp add: body_def hd_rev)
  also have "\<dots> = hd ?ds"
    using group3_last [OF ne] by (simp add: last_rev str_nat_nonempty)
  finally show "is_digit (hd body)"
    using str_nat_digits [of "nat \<bar>r\<bar>"] str_nat_nonempty [of "nat \<bar>r\<bar>"]
    by (cases ?ds) simp_all
  have "list_all is_digit (rev ?ds)"
    using str_nat_digits [of "nat \<bar>r\<bar>"] by (simp add: list_all_iff)
  from group3_filter [OF this] show "filter (\<lambda>c. c \<noteq> CHR '','') body = ?ds"
    by (simp add: body_def rev_filter [symmetric])
qed

lemma digits_no_point:
  assumes "list_all is_digit ds"
  shows "takeWhile (\<lambda>c. c \<noteq> CHR ''.'') ds = ds" and "dropWhile (\<lambda>c. c \<noteq> CHR ''.'') ds = []"
  using assms by (auto simp: takeWhile_eq_all_conv list_all_iff is_digit_not_punct)

lemma format_comma_reads: "cell_cents (format_comma r) = Some (100 * r)"
proof -
  let ?body = "rev (group3 (rev (str_nat (nat \<bar>r\<bar>))))"
  note b = comma_body [of r]
  have u: "unsigned (format_comma r) = ?body"
    and sg: "(take 1 (format_comma r) = ''-'') = (r < 0)"
    unfolding format_comma_def using unsigned_body [OF b(1) b(2)] by simp_all
  note tw = digits_no_point [OF str_nat_digits [of "nat \<bar>r\<bar>"]]
  show ?thesis
    unfolding cell_cents_def u sg b(3) Let_def tw
    by (simp add: str_nat_nonempty read_str_nat digit_value_def)
qed

lemma format_comma_grouped: "grouped_by_threes (format_comma r)"
proof -
  let ?body = "rev (group3 (rev (str_nat (nat \<bar>r\<bar>))))"
  note b = comma_body [of r]
  have u: "unsigned (format_comma r) = ?body"
    unfolding format_comma_def using unsigned_body [OF b(1) b(2)] by simp
  have "list_all is_digit (rev (str_nat (nat \<bar>r\<bar>)))"
    using str_nat_digits [of "nat \<bar>r\<bar>"] by (simp add: list_all_iff)
  from group3_places [OF this] b(1) b(2) show ?thesis
    unfolding grouped_by_threes_def u by simp
qed

lemma format_comma_spec: "thousands_separated (format_comma r) r"
proof -
  note b = comma_body [of r]
  have "(take 1 (format_comma r) = ''-'') = (r < 0)"
    unfolding format_comma_def using unsigned_body [OF b(1) b(2)] by simp
  then show ?thesis
    by (simp add: thousands_separated_def format_comma_grouped format_comma_reads)
qed


lemma div_half_even_near:
  assumes "0 < d"
  shows "2 * \<bar>int (div_half_even a d) * int d - int a\<bar> \<le> int d"
proof -
  define q where "q = a div d"
  define r where "r = a mod d"
  have a: "int a = int q * int d + int r"
    unfolding q_def r_def by (metis div_mult_mod_eq of_nat_add of_nat_mult)
  have r: "r < d" unfolding r_def using assms by simp
  show ?thesis
  proof (cases "2 * r > d \<or> (2 * r = d \<and> odd q)")
    case True
    then have "div_half_even a d = q + 1"
      by (simp add: div_half_even_def Let_def q_def r_def)
    then have "int (div_half_even a d) * int d - int a = int d - int r"
      by (simp add: a algebra_simps)
    with True r show ?thesis by auto
  next
    case False
    then have "div_half_even a d = q"
      by (simp add: div_half_even_def Let_def q_def r_def)
    then have "int (div_half_even a d) * int d - int a = - int r"
      by (simp add: a)
    with False show ?thesis by auto
  qed
qed

lemma pow2_pos: "0 < pow2 k"
  by (simp add: pow2_def)

lemma format_f_2:
  "format_f 2 (Fin sg m e) =
     (if sg then ''-'' else []) @
     (str_nat (div_half_even (m * 100 * pow2 e) (pow2 (- e)) div 100) @
      CHR ''.'' # pad_left 2 (str_nat (div_half_even (m * 100 * pow2 e) (pow2 (- e)) mod 100)))"
  by (simp add: format_f.simps Let_def)

lemma point_split:
  assumes "list_all is_digit W"
  shows "takeWhile (\<lambda>c. c \<noteq> CHR ''.'') (W @ CHR ''.'' # F) = W"
    and "dropWhile (\<lambda>c. c \<noteq> CHR ''.'') (W @ CHR ''.'' # F) = CHR ''.'' # F"
  using assms
  by (induction W) (auto simp: is_digit_not_punct)

lemma no_commas:
  assumes "list_all is_digit W" and "list_all is_digit F"
  shows "filter (\<lambda>c. c \<noteq> CHR '','') (W @ CHR ''.'' # F) = W @ CHR ''.'' # F"
  using assms by (auto simp: list_all_iff is_digit_not_punct)

lemma decimal_body:
  fixes n :: nat
  defines "W \<equiv> str_nat (n div 100)" and "F \<equiv> pad_left 2 (str_nat (n mod 100))"
  shows "W @ CHR ''.'' # F \<noteq> []" and "is_digit (hd (W @ CHR ''.'' # F))"
    and "list_all is_digit W" and "list_all is_digit F" and "length F = 2" and "W \<noteq> []"
    and "read_digits 0 W = Some (n div 100)" and "read_digits 0 F = Some (n mod 100)"
proof -
  show w: "list_all is_digit W" and "list_all is_digit F"
    by (simp_all add: W_def F_def str_nat_digits padded_digits)
  show ne: "W \<noteq> []" by (simp add: W_def str_nat_nonempty)
  show "W @ CHR ''.'' # F \<noteq> []" by simp
  from w ne show "is_digit (hd (W @ CHR ''.'' # F))" by (cases W) simp_all
  show "length F = 2" unfolding F_def by (rule length_padded) simp
  show "read_digits 0 W = Some (n div 100)" and "read_digits 0 F = Some (n mod 100)"
    by (simp_all add: W_def F_def read_str_nat read_padded)
qed

lemma format_f_2_reads:
  "cell_cents (format_f 2 (Fin sg m e)) =
     Some ((if sg then - 1 else 1) * int (div_half_even (m * 100 * pow2 e) (pow2 (- e))))"
proof -
  define n where "n = div_half_even (m * 100 * pow2 e) (pow2 (- e))"
  define W where "W = str_nat (n div 100)"
  define F where "F = pad_left 2 (str_nat (n mod 100))"
  note b = decimal_body [of n, folded W_def F_def]
  have f: "format_f 2 (Fin sg m e) = (if sg then ''-'' else []) @ (W @ CHR ''.'' # F)"
    by (simp only: format_f_2 n_def W_def F_def)
  have u: "unsigned (format_f 2 (Fin sg m e)) = W @ CHR ''.'' # F"
    and s: "(take 1 (format_f 2 (Fin sg m e)) = ''-'') = sg"
    unfolding f using unsigned_body [OF b(1) b(2)] by simp_all
  have "cell_cents (format_f 2 (Fin sg m e)) =
          Some ((if sg then - 1 else 1) * int (100 * (n div 100) + n mod 100))"
    unfolding cell_cents_def u s Let_def no_commas [OF b(3) b(4)] point_split [OF b(3)]
    using b by simp
  then show ?thesis
    by (simp add: n_def)
qed

lemma format_f_2_shape: "two_decimal_shape (format_f 2 (Fin sg m e))"
proof -
  define n where "n = div_half_even (m * 100 * pow2 e) (pow2 (- e))"
  define W where "W = str_nat (n div 100)"
  define F where "F = pad_left 2 (str_nat (n mod 100))"
  note b = decimal_body [of n, folded W_def F_def]
  have f: "format_f 2 (Fin sg m e) = (if sg then ''-'' else []) @ (W @ CHR ''.'' # F)"
    by (simp only: format_f_2 n_def W_def F_def)
  have u: "unsigned (format_f 2 (Fin sg m e)) = W @ CHR ''.'' # F"
    unfolding f using unsigned_body [OF b(1) b(2)] by simp
  show ?thesis
    unfolding two_decimal_shape_def u Let_def point_split [OF b(3)]
    using b by simp
qed

lemma format_f_2_spec: "two_decimals (format_f 2 (Fin sg m e)) (Fin sg m e)"
proof -
  define n where "n = div_half_even (m * 100 * pow2 e) (pow2 (- e))"
  define W where "W = str_nat (n div 100)"
  define F where "F = pad_left 2 (str_nat (n mod 100))"
  note b = decimal_body [of n, folded W_def F_def]
  have f: "format_f 2 (Fin sg m e) = (if sg then ''-'' else []) @ (W @ CHR ''.'' # F)"
    by (simp only: format_f_2 n_def W_def F_def)
  have s: "(take 1 (format_f 2 (Fin sg m e)) = ''-'') = sg"
    unfolding f using unsigned_body [OF b(1) b(2)] by simp
  have near: "2 * \<bar>int n * int (pow2 (- e)) - int (m * 100 * pow2 e)\<bar> \<le> int (pow2 (- e))"
    unfolding n_def by (rule div_half_even_near) (rule pow2_pos)
  have "(if sg then - 1 else 1) * int n * int (pow2 (- e)) -
          (if sg then - 1 else 1) * 100 * int (m * pow2 e) =
        (if sg then - 1 else 1) * (int n * int (pow2 (- e)) - int (m * 100 * pow2 e))"
    by (simp add: algebra_simps)
  then have "\<bar>(if sg then - 1 else 1) * int n * int (pow2 (- e)) -
          (if sg then - 1 else 1) * 100 * int (m * pow2 e)\<bar> =
        \<bar>int n * int (pow2 (- e)) - int (m * 100 * pow2 e)\<bar>"
    by (simp only: abs_mult) simp
  with near have "2 * \<bar>(if sg then - 1 else 1) * int n * int (pow2 (- e)) -
             (if sg then - 1 else 1) * 100 * int (m * pow2 e)\<bar> \<le> int (pow2 (- e))"
    by (simp only:)
  with s show ?thesis
    by (simp add: format_f_2_shape format_f_2_reads n_def)
qed

lemma div_half_even_up:
  assumes "a = q * d + r" and "r < d" and "d < 2 * r"
  shows "div_half_even a d = q + 1"
  using assms by (simp add: div_half_even_def Let_def)

lemma div_half_even_down:
  assumes "a = q * d + r" and "2 * r < d"
  shows "div_half_even a d = q"
  using assms by (simp add: div_half_even_def Let_def)

lemma div_half_even_840:
  assumes "4725964858971915 \<le> m" and "m \<le> 4731594358506127"
  shows "div_half_even (m * 100) 562949953421312 = 840"
proof (cases "m * 100 < 840 * 562949953421312")
  case True
  define r where "r = m * 100 - 839 * 562949953421312"
  from assms True have "m * 100 = 839 * 562949953421312 + r"
    and "r < 562949953421312" and "562949953421312 < 2 * r"
    unfolding r_def by simp_all
  from div_half_even_up [OF this] show ?thesis by simp
next
  case False
  define r where "r = m * 100 - 840 * 562949953421312"
  from assms False have "m * 100 = 840 * 562949953421312 + r"
    and "2 * r < 562949953421312"
    unfolding r_def by simp_all
  from div_half_even_down [OF this] show ?thesis by simp
qed

lemma near_8_40:
  assumes "4725964858971915 \<le> m" and "m \<le> 4731594358506127"
  shows "format_f 2 (Fin False m (- 49)) = ''8.40''"
proof -
  have "format_f 2 (Fin False m (- 49)) =
        str_nat (div_half_even (m * 100) 562949953421312 div 100) @
        CHR ''.'' # pad_left 2 (str_nat (div_half_even (m * 100) 562949953421312 mod 100))"
    by (simp add: format_f_2 pow2_def)
  also have "\<dots> = ''8.40''"
    unfolding div_half_even_840 [OF assms]
    by (simp add: str_nat.simps digit_char_def pad_left_def)
  finally show ?thesis .
qed

lemma data_row_cells:
  "data_row (q, r, n, x) = [q, format_comma r, format_comma n, format_f 2 x]"
  by (simp add: data_row_def)

lemma sum_cells_column:
  "sum_cells (map (\<lambda>row. format_comma (f row)) qs) = Some (100 * sum_list (map f qs))"
  by (induction qs) (simp_all add: format_comma_reads algebra_simps)

lemma revenue_column:
  "sum_cells (map (\<lambda>row. row ! 1) (data_rows g)) = Some (100 * total_rev g)"
proof -
  have "map (\<lambda>row. row ! 1) (data_rows g) =
        map (\<lambda>row. format_comma (fst (snd row))) (QUARTERLY_DATA g)"
    by (simp add: data_rows_def data_row_def split_def)
  then show ?thesis
    by (simp add: sum_cells_column total_rev_def sum_int_sum_list)
qed

lemma net_income_column:
  "sum_cells (map (\<lambda>row. row ! 2) (data_rows g)) = Some (100 * total_ni g)"
proof -
  have "map (\<lambda>row. row ! 2) (data_rows g) =
        map (\<lambda>row. format_comma (fst (snd (snd row)))) (QUARTERLY_DATA g)"
    by (simp add: data_rows_def data_row_def split_def)
  then show ?thesis
    by (simp add: sum_cells_column total_ni_def sum_int_sum_list)
qed

lemma shipped_finite:
  "list_all (\<lambda>row. finite_float (snd (snd (snd row)))) shipped_data"
  by (simp add: shipped_data_def lit_1_56 lit_1_95 lit_2_28 lit_2_61)

section \<open>The assembled flowables\<close>

lemma build_styles_ok:
  assumes "usable_sample sample"
  shows "build_styles sample = Inr (built_styles sample)"
  using assms
  by (auto simp: usable_sample_def build_styles_def add_style_def and_then_def sheet_get_def
                 built_styles_def CoverTitle_def CoverSubtitle_def BodyJustified_def
                 SectionHead_def TableCaption_def)

lemma build_styles_fails:
  assumes "\<not> usable_sample sample"
  shows "\<exists>e. build_styles sample = Inl e"
  using assms
  by (auto simp: usable_sample_def build_styles_def add_style_def and_then_def sheet_get_def
           split: option.splits)

lemma built_lookup:
  "sheet_get (built_styles sample) ''CoverTitle'' = Inr (CoverTitle sample)"
  "sheet_get (built_styles sample) ''CoverSubtitle'' = Inr (CoverSubtitle sample)"
  "sheet_get (built_styles sample) ''BodyJustified'' = Inr (BodyJustified sample)"
  "sheet_get (built_styles sample) ''SectionHead'' = Inr (SectionHead sample)"
  "sheet_get (built_styles sample) ''TableCaption'' = Inr (TableCaption sample)"
  by (simp_all add: sheet_get_def built_styles_def)

lemma cover_page_built:
  "cover_page (built_styles sample) g =
     (Inr [Spacer 1 (fmul (float_of_int 2) inch),
           Paragraph (COMPANY g) (CoverTitle sample),
           Paragraph (''Quarterly Earnings Report &mdash; Fiscal Year '' @ str_int (YEAR g))
             (CoverSubtitle sample),
           Spacer 1 (fmul (float_lit 5 10) inch),
           Paragraph ''Prepared for Investors and Analysts<br/>Published: January 15, 2025''
             (CoverSubtitle sample),
           PageBreak], g)"
  by (simp add: cover_page_def built_lookup and_then_def)

lemma narrative_built:
  "narrative_section (built_styles sample) g =
     (Inr [Paragraph ''Executive Summary'' (SectionHead sample),
           Paragraph (narrative_p1 g) (BodyJustified sample),
           Paragraph narrative_p2 (BodyJustified sample),
           Paragraph narrative_p3 (BodyJustified sample),
           Spacer 1 (fmul (float_lit 3 10) inch)], g)"
  by (simp add: narrative_section_def built_lookup and_then_def)

lemma table_built:
  "financial_table (built_styles sample) g =
     (Inr [Paragraph ''Quarterly Financial Highlights'' (SectionHead sample),
           Table (table_data g) col_widths table_style,
           Paragraph (table_caption g) (TableCaption sample)], g)"
  by (simp add: financial_table_def built_lookup and_then_def)

lemma chart_built:
  "revenue_chart g = (Inr (Drawing 450 260 [ChartShape (chart g), chart_title g]), g)"
  by (simp add: revenue_chart_def)

lemma build_elements_ok:
  assumes "usable_sample sample"
  shows "build_elements sample g =
     (Inr [Spacer 1 (fmul (float_of_int 2) inch),
           Paragraph (COMPANY g) (CoverTitle sample),
           Paragraph (''Quarterly Earnings Report &mdash; Fiscal Year '' @ str_int (YEAR g))
             (CoverSubtitle sample),
           Spacer 1 (fmul (float_lit 5 10) inch),
           Paragraph ''Prepared for Investors and Analysts<br/>Published: January 15, 2025''
             (CoverSubtitle sample),
           PageBreak,
           Paragraph ''Executive Summary'' (SectionHead sample),
           Paragraph (narrative_p1 g) (BodyJustified sample),
           Paragraph narrative_p2 (BodyJustified sample),
           Paragraph narrative_p3 (BodyJustified sample),
           Spacer 1 (fmul (float_lit 3 10) inch),
           Paragraph ''Quarterly Financial Highlights'' (SectionHead sample),
           Table (table_data g) col_widths table_style,
           Paragraph (table_caption g) (TableCaption sample),
           Spacer 1 (fmul (float_lit 4 10) inch),
           Paragraph ''Revenue Trend'' (SectionHead sample),
           Drawing 450 260 [ChartShape (chart g), chart_title g],
           Paragraph (figure_caption g) (TableCaption sample)], g)"
  by (simp add: build_elements_def seq_def done_with_def build_styles_ok [OF assms]
        cover_page_built narrative_built table_built chart_built built_lookup and_then_def)

lemma build_elements_fails:
  assumes "\<not> usable_sample sample"
  shows "\<exists>e. build_elements sample g = (Inl e, g)"
proof -
  from build_styles_fails [OF assms] obtain e where "build_styles sample = Inl e" ..
  then show ?thesis
    by (simp add: build_elements_def seq_def)
qed

lemma usable_sample_sheet: "usable_sample sample_sheet"
  by (simp add: usable_sample_def sample_sheet_def)

lemma unusable_empty: "\<not> usable_sample Map.empty"
  by (simp add: usable_sample_def)

lemma shipped_bars:
  "chart_bars (chart (module_globals here)) =
     [(''Q1 2024'', 2105, Some ''2105''), (''Q2 2024'', 2498, Some ''2498''),
      (''Q3 2024'', 2847, Some ''2847''), (''Q4 2024'', 3102, Some ''3102'')]"
  by (simp add: chart_bars_def chart_def revenues_def module_globals_def shipped_data_def
        VerticalBarChart_def bar_label_def percent_d_def str_int_def str_nat.simps digit_char_def)

lemma bars_general:
  "chart_bars (chart g) = map (\<lambda>(q, r, n, e). (q, r, Some (percent_d r))) (QUARTERLY_DATA g)"
  by (simp add: chart_bars_def chart_def revenues_def VerticalBarChart_def bar_label_def
        zip_map_map zip_same_conv_map split_def)

lemma seq_keeps:
  assumes "\<And>g. snd (m g) = g" and "\<And>v g. snd (f v g) = g"
  shows "snd (seq m f g) = g"
proof (cases "m g")
  case (Pair r g')
  with assms(1) [of g] have "g' = g" by simp
  with Pair assms(2) show ?thesis
    by (cases r) (simp_all add: seq_def)
qed

lemma build_elements_keeps: "snd (build_elements sample g) = g"
  unfolding build_elements_def
  by (intro seq_keeps)
     (simp_all add: cover_page_def narrative_section_def financial_table_def
        revenue_chart_def done_with_def)

lemma build_pdf_keeps: "fst (snd (build_pdf sample engine g w)) = g"
  using build_elements_keeps [of sample g]
  by (auto simp: build_pdf_def split: prod.splits sum.splits)

section \<open>The narrative prose\<close>









section \<open>The table that the routine returns\<close>

lemma table_content:
  "table_data g = header # data_rows g @ [totals_row g] \<and>
   length (data_rows g) = length (QUARTERLY_DATA g) \<and>
   total_rev g = sum_list (map (\<lambda>(q, r, n, e). r) (QUARTERLY_DATA g)) \<and>
   total_ni g = sum_list (map (\<lambda>(q, r, n, e). n) (QUARTERLY_DATA g)) \<and>
   length (QUARTERLY_DATA (module_globals here)) = 4 \<and>
   length (table_data (module_globals here)) = 6 \<and>
   table_data (module_globals here) =
     [[''Quarter'', ''Revenue ($M)'', ''Net Income ($M)'', ''EPS ($)''],
      [''Q1 2024'', ''2,105'', ''312'', ''1.56''],
      [''Q2 2024'', ''2,498'', ''389'', ''1.95''],
      [''Q3 2024'', ''2,847'', ''456'', ''2.28''],
      [''Q4 2024'', ''3,102'', ''521'', ''2.61''],
      [''FY 2024 Total'', ''10,552'', ''1,678'', ''8.40'']] \<and>
   cell_cents (totals_row g ! 1) = sum_cells (map (\<lambda>row. row ! 1) (data_rows g)) \<and>
   cell_cents (totals_row g ! 2) = sum_cells (map (\<lambda>row. row ! 2) (data_rows g)) \<and>
   cell_cents (totals_row (module_globals here) ! 3) =
     sum_cells (map (\<lambda>row. row ! 3) (data_rows (module_globals here))) \<and>
   cell_cents (totals_row (module_globals here) ! 1) = Some 1055200 \<and>
   cell_cents (totals_row (module_globals here) ! 2) = Some 167800 \<and>
   cell_cents (totals_row (module_globals here) ! 3) = Some 840"
proof -
  have shape: "table_data g = header # data_rows g @ [totals_row g] \<and>
      length (data_rows g) = length (QUARTERLY_DATA g)"
    by (simp add: table_data_def data_rows_def)
  have sums: "total_rev g = sum_list (map (\<lambda>(q, r, n, e). r) (QUARTERLY_DATA g)) \<and>
      total_ni g = sum_list (map (\<lambda>(q, r, n, e). n) (QUARTERLY_DATA g))"
    by (simp add: total_rev_def total_ni_def sum_int_sum_list split_def)
  have four: "length (QUARTERLY_DATA (module_globals here)) = 4"
    by (simp add: module_globals_def shipped_data_def)
  have table: "table_data (module_globals here) =
     [[''Quarter'', ''Revenue ($M)'', ''Net Income ($M)'', ''EPS ($)''],
      [''Q1 2024'', ''2,105'', ''312'', ''1.56''],
      [''Q2 2024'', ''2,498'', ''389'', ''1.95''],
      [''Q3 2024'', ''2,847'', ''456'', ''2.28''],
      [''Q4 2024'', ''3,102'', ''521'', ''2.61''],
      [''FY 2024 Total'', ''10,552'', ''1,678'', ''8.40'']]"
    by (simp add: table_data_def header_def shipped_rows shipped_totals_row)
  have six: "length (table_data (module_globals here)) = 6"
    by (simp only: table) simp
  have c1: "cell_cents (totals_row (module_globals here) ! 1) = Some 1055200"
    and c2: "cell_cents (totals_row (module_globals here) ! 2) = Some 167800"
    and c3: "cell_cents (totals_row (module_globals here) ! 3) = Some 840"
    by (simp_all add: shipped_totals_row cell_cents_def unsigned_def digit_value_def Let_def)
  have s1: "sum_cells (map (\<lambda>row. row ! 1) (data_rows (module_globals here))) = Some 1055200"
    and s2: "sum_cells (map (\<lambda>row. row ! 2) (data_rows (module_globals here))) = Some 167800"
    and s3: "sum_cells (map (\<lambda>row. row ! 3) (data_rows (module_globals here))) = Some 840"
    by (simp_all add: shipped_rows cell_cents_def unsigned_def digit_value_def Let_def)
  have g1: "cell_cents (totals_row g ! 1) = sum_cells (map (\<lambda>row. row ! 1) (data_rows g))"
    and g2: "cell_cents (totals_row g ! 2) = sum_cells (map (\<lambda>row. row ! 2) (data_rows g))"
    unfolding revenue_column net_income_column
    by (simp_all add: totals_row_def format_comma_reads)
  from shape sums four table six c1 c2 c3 s3 g1 g2 show ?thesis
    by (simp only:)
qed

lemma financial_table_result:
  assumes "fst (financial_table styles g) = Inr els"
  shows "\<exists>head cap. els =
           [Paragraph ''Quarterly Financial Highlights'' head,
            Table (table_data g) col_widths table_style,
            Paragraph (table_caption g) cap]"
  using assms
  by (auto simp: financial_table_def and_then_def sheet_get_def split: option.splits)

section \<open>The run on the file system\<close>







lemma write_file_result:
  assumes "write_file p bytes t = Inr t'"
  shows "t' = t(p \<mapsto> File True bytes)"
  using assms
  by (auto simp: write_file_def split: option.splits node.splits if_splits)

lemma build_pdf_ok:
  assumes "build_elements sample g = (Inr els, g)"
      and "engine (doc g) els = Inr bytes"
      and "write_file (OUTPUT_PDF g) bytes (fs w) = Inr t"
  shows "build_pdf sample engine g w =
           (Inr (), g, w\<lparr>fs := t, stdout := stdout w @ report_lines g (length bytes)\<rparr>)"
  using assms by (simp add: build_pdf_def)

lemma build_pdf_success:
  assumes "build_pdf sample engine g w = (Inr (), g', w')"
  shows "\<exists>els bytes. build_elements sample g = (Inr els, g) \<and>
           engine (doc g) els = Inr bytes \<and>
           fs w' = (fs w)(OUTPUT_PDF g \<mapsto> File True bytes) \<and>
           stdout w' = stdout w @ report_lines g (length bytes)"
proof -
  obtain r g1 where be: "build_elements sample g = (r, g1)"
    by (cases "build_elements sample g")
  with build_elements_keeps [of sample g] have g1: "g1 = g" by simp
  from assms be g1 show ?thesis
    by (auto simp: build_pdf_def split: sum.splits dest: write_file_result)
qed

lemma elements_read_three_globals:
  assumes "COMPANY g1 = COMPANY g2" and "YEAR g1 = YEAR g2"
      and "QUARTERLY_DATA g1 = QUARTERLY_DATA g2"
  shows "fst (build_elements sample g1) = fst (build_elements sample g2)"
proof (cases "usable_sample sample")
  case True
  have "narrative_p1 g1 = narrative_p1 g2" "table_data g1 = table_data g2"
    "table_caption g1 = table_caption g2" "chart g1 = chart g2"
    "chart_title g1 = chart_title g2" "figure_caption g1 = figure_caption g2"
    using assms
    by (simp_all add: narrative_p1_def table_data_def data_rows_def totals_row_def
          total_rev_def total_ni_def total_eps_def table_caption_def chart_def revenues_def
          chart_title_def figure_caption_def)
  with assms show ?thesis
    by (simp add: build_elements_ok [OF True])
next
  case False
  from build_styles_fails [OF this] obtain e where "build_styles sample = Inl e" ..
  then show ?thesis
    by (simp add: build_elements_def seq_def)
qed

lemma shipped_elements:
  "\<exists>els. build_elements sample_sheet g = (Inr els, g)"
  using build_elements_ok [OF usable_sample_sheet, of g] by blast

lemma plain_engine_shipped:
  "plain_engine (doc (module_globals script_dir)) els = Inr shipped_bytes"
  by (simp add: plain_engine_def doc_def module_globals_def script_dir_def path_str_def
        shipped_bytes_def)

lemma plain_engine_other:
  "plain_engine (doc (module_globals other_dir)) els = Inr other_bytes"
  by (simp add: plain_engine_def doc_def module_globals_def other_dir_def path_str_def
        other_bytes_def)







section \<open>Properties\<close>

text \<open>
  C1. For the fixed four-quarter dataset, the totals that the table-building routine
  computes by summation are revenue 10,552 and net income 1,678, and the sum of the
  four earnings-per-share values, rendered with two decimals, is 8.40. The sum is the
  double just below 8.4 that adding from left to right gives; every double between 8.395
  and 8.405 is rendered as 8.40 too, so the cell does not depend on how a summation
  orders or compensates its additions.
\<close>

theorem annual_totals:
  "total_rev (module_globals here) = 10552 \<and>
   total_ni (module_globals here) = 1678 \<and>
   total_eps (module_globals here) = Fin False 4728779608739020 (- 49) \<and>
   format_f 2 (total_eps (module_globals here)) = ''8.40'' \<and>
   (4725964858971915 \<le> m \<and> m \<le> 4731594358506127 \<longrightarrow>
      format_f 2 (Fin False m (- 49)) = ''8.40'')"
  using near_8_40 [of m]
  by (simp add: total_rev_def total_ni_def total_eps_def module_globals_def
                shipped_total_rev shipped_total_ni shipped_eps_sum format_total_eps)

theorem annual_totals_witness:
  "(4725964858971915 :: nat) \<le> 4728779608739021 \<and>
   (4728779608739021 :: nat) \<le> 4731594358506127 \<and>
   format_f 2 (Fin False 4728779608739021 (- 49)) = ''8.40'' \<and>
   format_f 2 (total_eps (module_globals script_dir)) = ''8.40''"
proof -
  have "(4725964858971915 :: nat) \<le> 4728779608739021 \<and>
        (4728779608739021 :: nat) \<le> 4731594358506127"
    by simp
  with annual_totals [of script_dir 4728779608739021] show ?thesis
    by blast
qed

text \<open>
  C3. The chart built by \<^verbatim>\<open>revenue_chart\<close> has a value axis from 0 to 3500 with step
  500; its one series holds the revenues of the dataset and its categories the quarter
  labels, both in dataset order, so that it draws one bar per quarter, keyed by the
  quarter label and labelled with the revenue as an integer (\<^verbatim>\<open>"%d"\<close>); for the
  shipped dataset these are four bars.
\<close>

theorem revenue_chart_axis_and_bars:
  "fst (revenue_chart g) = Inr (Drawing 450 260 [ChartShape (chart g), chart_title g]) \<and>
   valueAxis_valueMin (chart g) = Some 0 \<and>
   valueAxis_valueMax (chart g) = Some 3500 \<and>
   valueAxis_valueStep (chart g) = Some 500 \<and>
   chart_data (chart g) = [map (\<lambda>(q, r, n, e). r) (QUARTERLY_DATA g)] \<and>
   categoryAxis_categoryNames (chart g) = map (\<lambda>(q, r, n, e). q) (QUARTERLY_DATA g) \<and>
   barLabelFormat (chart g) = Some ''%d'' \<and>
   chart_bars (chart g) = map (\<lambda>(q, r, n, e). (q, r, Some (percent_d r))) (QUARTERLY_DATA g) \<and>
   length (chart_bars (chart (module_globals here))) = 4 \<and>
   chart_bars (chart (module_globals here)) =
     [(''Q1 2024'', 2105, Some ''2105''), (''Q2 2024'', 2498, Some ''2498''),
      (''Q3 2024'', 2847, Some ''2847''), (''Q4 2024'', 3102, Some ''3102'')]"
proof -
  have axis: "valueAxis_valueMin (chart g) = Some 0 \<and>
      valueAxis_valueMax (chart g) = Some 3500 \<and>
      valueAxis_valueStep (chart g) = Some 500 \<and>
      chart_data (chart g) = [map (\<lambda>(q, r, n, e). r) (QUARTERLY_DATA g)] \<and>
      categoryAxis_categoryNames (chart g) = map (\<lambda>(q, r, n, e). q) (QUARTERLY_DATA g) \<and>
      barLabelFormat (chart g) = Some ''%d''"
    by (simp add: chart_def VerticalBarChart_def revenues_def split_def)
  have four: "length (chart_bars (chart (module_globals here))) = 4"
    by (simp only: shipped_bars) simp
  show ?thesis
    using axis four bars_general [of g] shipped_bars [of here] chart_built [of g]
    by (simp only: fst_conv)
qed

text \<open>
  C4. The assembled list of flowables contains exactly one page break: it is the last
  flowable that \<^verbatim>\<open>cover_page\<close> returns, it comes after all the other cover flowables,
  and the flowables of \<^verbatim>\<open>narrative_section\<close> follow it immediately.
\<close>

theorem single_page_break:
  assumes "usable_sample sample"
  shows "\<exists>styles content narrative rest.
           build_styles sample = Inr styles \<and>
           fst (cover_page styles g) = Inr (content @ [PageBreak]) \<and>
           fst (narrative_section styles g) = Inr narrative \<and>
           content \<noteq> [] \<and> narrative \<noteq> [] \<and>
           fst (build_elements sample g) = Inr (content @ [PageBreak] @ narrative @ rest) \<and>
           count_list (content @ [PageBreak] @ narrative @ rest) PageBreak = 1"
proof -
  let ?content =
    "[Spacer 1 (fmul (float_of_int 2) inch),
      Paragraph (COMPANY g) (CoverTitle sample),
      Paragraph (''Quarterly Earnings Report &mdash; Fiscal Year '' @ str_int (YEAR g))
        (CoverSubtitle sample),
      Spacer 1 (fmul (float_lit 5 10) inch),
      Paragraph ''Prepared for Investors and Analysts<br/>Published: January 15, 2025''
        (CoverSubtitle sample)]"
  let ?narrative =
    "[Paragraph ''Executive Summary'' (SectionHead sample),
      Paragraph (narrative_p1 g) (BodyJustified sample),
      Paragraph narrative_p2 (BodyJustified sample),
      Paragraph narrative_p3 (BodyJustified sample),
      Spacer 1 (fmul (float_lit 3 10) inch)]"
  let ?rest =
    "[Paragraph ''Quarterly Financial Highlights'' (SectionHead sample),
      Table (table_data g) col_widths table_style,
      Paragraph (table_caption g) (TableCaption sample),
      Spacer 1 (fmul (float_lit 4 10) inch),
      Paragraph ''Revenue Trend'' (SectionHead sample),
      Drawing 450 260 [ChartShape (chart g), chart_title g],
      Paragraph (figure_caption g) (TableCaption sample)]"
  have "build_styles sample = Inr (built_styles sample)"
    by (rule build_styles_ok [OF assms])
  moreover have "fst (cover_page (built_styles sample) g) = Inr (?content @ [PageBreak])"
    by (simp add: cover_page_built)
  moreover have "fst (narrative_section (built_styles sample) g) = Inr ?narrative"
    by (simp add: narrative_built)
  moreover have "fst (build_elements sample g) = Inr (?content @ [PageBreak] @ ?narrative @ ?rest)"
    by (simp add: build_elements_ok [OF assms])
  moreover have "count_list (?content @ [PageBreak] @ ?narrative @ ?rest) PageBreak = 1"
    by simp
  ultimately show ?thesis
    by blast
qed

theorem single_page_break_witness:
  "usable_sample sample_sheet \<and>
   (\<exists>styles content narrative rest.
      build_styles sample_sheet = Inr styles \<and>
      fst (cover_page styles (module_globals script_dir)) = Inr (content @ [PageBreak]) \<and>
      fst (narrative_section styles (module_globals script_dir)) = Inr narrative \<and>
      content \<noteq> [] \<and> narrative \<noteq> [] \<and>
      fst (build_elements sample_sheet (module_globals script_dir)) =
        Inr (content @ [PageBreak] @ narrative @ rest) \<and>
      count_list (content @ [PageBreak] @ narrative @ rest) PageBreak = 1)"
  using single_page_break [OF usable_sample_sheet, of "module_globals script_dir"]
        usable_sample_sheet
  by simp

text \<open>
  C5. Whenever the assembly returns a list, it is the same fixed sequence: the cover
  block (title, subtitle, contact and publication line, page break), the narrative block
  (three paragraphs), the tabular block (table, caption) and the chart block (drawing of
  chart and title, caption), in this order, with spacers and section headings as the only
  other flowables. With a sample sheet that the script cannot use, the assembly raises
  and returns no list at all.
\<close>

theorem assembly_order:
  "(usable_sample sample \<longrightarrow>
      (\<exists>els. fst (build_elements sample g) = Inr els \<and>
         els =
           [Spacer 1 (fmul (float_of_int 2) inch)] @ take 2 (cover_block sample g) @
           [Spacer 1 (fmul (float_lit 5 10) inch)] @ drop 2 (cover_block sample g) @
           [Paragraph ''Executive Summary'' (SectionHead sample)] @ narrative_block sample g @
           [Spacer 1 (fmul (float_lit 3 10) inch)] @
           [Paragraph ''Quarterly Financial Highlights'' (SectionHead sample)] @
           tabular_block sample g @
           [Spacer 1 (fmul (float_lit 4 10) inch)] @
           [Paragraph ''Revenue Trend'' (SectionHead sample)] @ chart_block sample g \<and>
         filter (\<lambda>f. \<not> is_spacing f \<and> \<not> is_heading f) els =
           cover_block sample g @ narrative_block sample g @ tabular_block sample g @
           chart_block sample g)) \<and>
   (\<not> usable_sample sample \<longrightarrow> (\<exists>e. fst (build_elements sample g) = Inl e))"
proof (intro conjI impI)
  assume ok: "usable_sample sample"
  show "\<exists>els. fst (build_elements sample g) = Inr els \<and>
         els =
           [Spacer 1 (fmul (float_of_int 2) inch)] @ take 2 (cover_block sample g) @
           [Spacer 1 (fmul (float_lit 5 10) inch)] @ drop 2 (cover_block sample g) @
           [Paragraph ''Executive Summary'' (SectionHead sample)] @ narrative_block sample g @
           [Spacer 1 (fmul (float_lit 3 10) inch)] @
           [Paragraph ''Quarterly Financial Highlights'' (SectionHead sample)] @
           tabular_block sample g @
           [Spacer 1 (fmul (float_lit 4 10) inch)] @
           [Paragraph ''Revenue Trend'' (SectionHead sample)] @ chart_block sample g \<and>
         filter (\<lambda>f. \<not> is_spacing f \<and> \<not> is_heading f) els =
           cover_block sample g @ narrative_block sample g @ tabular_block sample g @
           chart_block sample g"
    by (simp add: build_elements_ok [OF ok] cover_block_def narrative_block_def
          tabular_block_def chart_block_def CoverTitle_def CoverSubtitle_def BodyJustified_def
          SectionHead_def TableCaption_def)
next
  assume "\<not> usable_sample sample"
  from build_elements_fails [OF this, of g] show "\<exists>e. fst (build_elements sample g) = Inl e"
    by auto
qed

theorem assembly_order_witness:
  "usable_sample sample_sheet \<and>
   (\<exists>els. fst (build_elements sample_sheet (module_globals script_dir)) = Inr els \<and>
      length els = 18 \<and>
      filter (\<lambda>f. \<not> is_spacing f \<and> \<not> is_heading f) els =
        cover_block sample_sheet (module_globals script_dir) @
        narrative_block sample_sheet (module_globals script_dir) @
        tabular_block sample_sheet (module_globals script_dir) @
        chart_block sample_sheet (module_globals script_dir)) \<and>
   \<not> usable_sample Map.empty \<and>
   (\<exists>e. fst (build_elements Map.empty (module_globals script_dir)) = Inl e)"
  using assembly_order [of sample_sheet "module_globals script_dir"]
        assembly_order [of Map.empty "module_globals script_dir"]
        usable_sample_sheet unusable_empty
  by (auto simp: cover_block_def narrative_block_def tabular_block_def chart_block_def)

text \<open>
  C9. None of the content-building routines, nor the assembly, nor \<^verbatim>\<open>build_pdf\<close>
  changes the module globals: each returns them as it received them, whether it raises
  or not. In particular the dataset after \<^verbatim>\<open>build_pdf\<close> is the shipped table of four
  records.
\<close>

theorem dataset_not_mutated:
  "snd (cover_page styles g) = g \<and>
   snd (narrative_section styles g) = g \<and>
   snd (financial_table styles g) = g \<and>
   snd (revenue_chart g) = g \<and>
   snd (build_elements sample g) = g \<and>
   fst (snd (build_pdf sample engine g w)) = g \<and>
   QUARTERLY_DATA (fst (snd (build_pdf sample engine (module_globals here) w))) = shipped_data \<and>
   length shipped_data = 4"
  by (simp add: build_elements_keeps build_pdf_keeps)
     (simp add: cover_page_def narrative_section_def financial_table_def revenue_chart_def
        module_globals_def shipped_data_def)

text \<open>
  C7. Every data row is the quarter label followed by the revenue and the net income as
  thousands-separated integers and the earnings per share as a two-decimal value, for
  every record with a finite earnings-per-share value; the totals row shows the three
  totals in the same formats. The shipped records and their total are finite.
\<close>

theorem cells_are_formatted:
  "data_rows g = map data_row (QUARTERLY_DATA g) \<and>
   data_row (q, r, n, x) = [q, format_comma r, format_comma n, format_f 2 x] \<and>
   thousands_separated (data_row (q, r, n, x) ! 1) r \<and>
   thousands_separated (data_row (q, r, n, x) ! 2) n \<and>
   (finite_float x \<longrightarrow> two_decimals (data_row (q, r, n, x) ! 3) x) \<and>
   thousands_separated (totals_row g ! 1) (total_rev g) \<and>
   thousands_separated (totals_row g ! 2) (total_ni g) \<and>
   (finite_float (total_eps g) \<longrightarrow> two_decimals (totals_row g ! 3) (total_eps g)) \<and>
   list_all (\<lambda>row. finite_float (snd (snd (snd row)))) (QUARTERLY_DATA (module_globals here)) \<and>
   finite_float (total_eps (module_globals here))"
proof -
  have fin: "finite_float y \<Longrightarrow> two_decimals (format_f 2 y) y" for y
    by (cases y) (simp_all only: format_f_2_spec finite_float.simps)
  have "finite_float (total_eps (module_globals here))"
    by (simp add: total_eps_def module_globals_def shipped_eps_sum)
  moreover have "list_all (\<lambda>row. finite_float (snd (snd (snd row))))
      (QUARTERLY_DATA (module_globals here))"
    by (simp add: module_globals_def shipped_finite)
  ultimately show ?thesis
    using fin [of x] fin [of "total_eps g"]
    by (simp add: data_rows_def data_row_cells totals_row_def format_comma_spec)
qed

theorem cells_are_formatted_witness:
  "finite_float (Fin False 7025615418697974 (- 52)) \<and>
   two_decimals ''1.56'' (Fin False 7025615418697974 (- 52)) \<and>
   thousands_separated ''2,105'' 2105 \<and>
   thousands_separated ''312'' 312 \<and>
   finite_float (total_eps (module_globals script_dir)) \<and>
   two_decimals ''8.40'' (total_eps (module_globals script_dir)) \<and>
   thousands_separated ''10,552'' (total_rev (module_globals script_dir))"
  using cells_are_formatted
    [of "module_globals script_dir" "''Q1 2024''" 2105 312 "Fin False 7025615418697974 (- 52)"
        script_dir]
  by (simp add: data_row_cells format_1_56 format_ints shipped_totals_row)

text \<open>
  C2. The list that \<^verbatim>\<open>financial_table\<close> returns holds exactly one table, between a
  heading and a caption, and its cells are \<open>table_data\<close>: the header row, one data row
  per record of the dataset and the totals row. For every dataset the revenue and
  net-income cells of the totals row, read back as numbers, are the sums of the cells
  above them read back as numbers. For the shipped dataset the table has 6 rows
  (1 + 4 + 1), and the earnings-per-share cell of the totals row, 8.40, is the sum of the
  four cells above it as well.
\<close>

theorem table_rows_and_totals:
  "(fst (financial_table styles g) = Inr els \<longrightarrow>
      (\<exists>head cap. els =
         [Paragraph ''Quarterly Financial Highlights'' head,
          Table (table_data g) col_widths table_style,
          Paragraph (table_caption g) cap]) \<and>
      table_cells els = [table_data g]) \<and>
   (usable_sample sample \<longrightarrow>
      (\<exists>styles els. build_styles sample = Inr styles \<and>
         fst (financial_table styles g) = Inr els \<and>
         table_cells els = [table_data g])) \<and>
   table_data g = header # data_rows g @ [totals_row g] \<and>
   length (data_rows g) = length (QUARTERLY_DATA g) \<and>
   total_rev g = sum_list (map (\<lambda>(q, r, n, e). r) (QUARTERLY_DATA g)) \<and>
   total_ni g = sum_list (map (\<lambda>(q, r, n, e). n) (QUARTERLY_DATA g)) \<and>
   length (QUARTERLY_DATA (module_globals here)) = 4 \<and>
   length (table_data (module_globals here)) = 6 \<and>
   table_data (module_globals here) =
     [[''Quarter'', ''Revenue ($M)'', ''Net Income ($M)'', ''EPS ($)''],
      [''Q1 2024'', ''2,105'', ''312'', ''1.56''],
      [''Q2 2024'', ''2,498'', ''389'', ''1.95''],
      [''Q3 2024'', ''2,847'', ''456'', ''2.28''],
      [''Q4 2024'', ''3,102'', ''521'', ''2.61''],
      [''FY 2024 Total'', ''10,552'', ''1,678'', ''8.40'']] \<and>
   cell_cents (totals_row g ! 1) = sum_cells (map (\<lambda>row. row ! 1) (data_rows g)) \<and>
   cell_cents (totals_row g ! 2) = sum_cells (map (\<lambda>row. row ! 2) (data_rows g)) \<and>
   cell_cents (totals_row (module_globals here) ! 3) =
     sum_cells (map (\<lambda>row. row ! 3) (data_rows (module_globals here))) \<and>
   cell_cents (totals_row (module_globals here) ! 1) = Some 1055200 \<and>
   cell_cents (totals_row (module_globals here) ! 2) = Some 167800 \<and>
   cell_cents (totals_row (module_globals here) ! 3) = Some 840"
proof -
  have tie: "fst (financial_table styles g) = Inr els \<longrightarrow>
      (\<exists>head cap. els =
         [Paragraph ''Quarterly Financial Highlights'' head,
          Table (table_data g) col_widths table_style,
          Paragraph (table_caption g) cap]) \<and>
      table_cells els = [table_data g]"
  proof
    assume "fst (financial_table styles g) = Inr els"
    from financial_table_result [OF this] obtain head cap where
      els: "els = [Paragraph ''Quarterly Financial Highlights'' head,
                   Table (table_data g) col_widths table_style,
                   Paragraph (table_caption g) cap]"
      by blast
    then have "table_cells els = [table_data g]" by simp
    with els show "(\<exists>head cap. els =
         [Paragraph ''Quarterly Financial Highlights'' head,
          Table (table_data g) col_widths table_style,
          Paragraph (table_caption g) cap]) \<and>
      table_cells els = [table_data g]"
      by blast
  qed
  have built: "usable_sample sample \<longrightarrow>
      (\<exists>styles els. build_styles sample = Inr styles \<and>
         fst (financial_table styles g) = Inr els \<and>
         table_cells els = [table_data g])"
  proof
    assume ok: "usable_sample sample"
    have "fst (financial_table (built_styles sample) g) =
            Inr [Paragraph ''Quarterly Financial Highlights'' (SectionHead sample),
                 Table (table_data g) col_widths table_style,
                 Paragraph (table_caption g) (TableCaption sample)]"
      by (simp add: table_built)
    moreover have "table_cells
            [Paragraph ''Quarterly Financial Highlights'' (SectionHead sample),
             Table (table_data g) col_widths table_style,
             Paragraph (table_caption g) (TableCaption sample)] = [table_data g]"
      by simp
    ultimately show "\<exists>styles els. build_styles sample = Inr styles \<and>
         fst (financial_table styles g) = Inr els \<and>
         table_cells els = [table_data g]"
      using build_styles_ok [OF ok] by blast
  qed
  show ?thesis
    by (rule conjI [OF tie conjI [OF built table_content]])
qed

theorem table_rows_and_totals_witness:
  "usable_sample sample_sheet \<and>
   (\<exists>styles els. build_styles sample_sheet = Inr styles \<and>
      fst (financial_table styles (module_globals script_dir)) = Inr els \<and>
      table_cells els = [table_data (module_globals script_dir)]) \<and>
   table_data (module_globals script_dir) =
     [[''Quarter'', ''Revenue ($M)'', ''Net Income ($M)'', ''EPS ($)''],
      [''Q1 2024'', ''2,105'', ''312'', ''1.56''],
      [''Q2 2024'', ''2,498'', ''389'', ''1.95''],
      [''Q3 2024'', ''2,847'', ''456'', ''2.28''],
      [''Q4 2024'', ''3,102'', ''521'', ''2.61''],
      [''FY 2024 Total'', ''10,552'', ''1,678'', ''8.40'']] \<and>
   fst (financial_table (built_styles sample_sheet) (module_globals script_dir)) =
     Inr [Paragraph ''Quarterly Financial Highlights'' (SectionHead sample_sheet),
          Table (table_data (module_globals script_dir)) col_widths table_style,
          Paragraph (table_caption (module_globals script_dir)) (TableCaption sample_sheet)] \<and>
   table_cells
     [Paragraph ''Quarterly Financial Highlights'' (SectionHead sample_sheet),
      Table (table_data (module_globals script_dir)) col_widths table_style,
      Paragraph (table_caption (module_globals script_dir)) (TableCaption sample_sheet)] =
     [table_data (module_globals script_dir)]"
proof -
  have r: "fst (financial_table (built_styles sample_sheet) (module_globals script_dir)) =
     Inr [Paragraph ''Quarterly Financial Highlights'' (SectionHead sample_sheet),
          Table (table_data (module_globals script_dir)) col_widths table_style,
          Paragraph (table_caption (module_globals script_dir)) (TableCaption sample_sheet)]"
    by (simp add: table_built)
  note t = table_rows_and_totals
    [where styles = "built_styles sample_sheet" and g = "module_globals script_dir"
       and sample = sample_sheet and here = script_dir
       and els = "[Paragraph ''Quarterly Financial Highlights'' (SectionHead sample_sheet),
          Table (table_data (module_globals script_dir)) col_widths table_style,
          Paragraph (table_caption (module_globals script_dir)) (TableCaption sample_sheet)]"]
  from t r usable_sample_sheet show ?thesis
    by blast
qed

text \<open>
  C6. The content handed to the layout engine depends on the sample sheet, the company
  name, the year and the dataset, and on nothing else: two successful runs of
  \<^verbatim>\<open>build_pdf\<close> that agree on these, from any two script directories (hence output
  paths), any two states of the file system and of the console, and with any two
  engines, give the engine the same list of flowables, and each writes what its engine
  made of them. The two engines stand for the layout engine at two moments (it may embed
  the time); when the engine and the output path are the same as well, the two files hold
  the same bytes and the same lines are printed.
\<close>

theorem deterministic_content:
  assumes "COMPANY g1 = COMPANY g2" and "YEAR g1 = YEAR g2"
      and "QUARTERLY_DATA g1 = QUARTERLY_DATA g2"
      and "build_pdf sample engine1 g1 w1 = (Inr (), g1', w1')"
      and "build_pdf sample engine2 g2 w2 = (Inr (), g2', w2')"
  shows "\<exists>els b1 b2.
           fst (build_elements sample g1) = Inr els \<and>
           fst (build_elements sample g2) = Inr els \<and>
           engine1 (doc g1) els = Inr b1 \<and> engine2 (doc g2) els = Inr b2 \<and>
           fs w1' (OUTPUT_PDF g1) = Some (File True b1) \<and>
           fs w2' (OUTPUT_PDF g2) = Some (File True b2) \<and>
           (engine1 = engine2 \<and> OUTPUT_PDF g1 = OUTPUT_PDF g2 \<longrightarrow>
              b1 = b2 \<and> drop (length (stdout w1)) (stdout w1') =
                        drop (length (stdout w2)) (stdout w2'))"
proof -
  from build_pdf_success [OF assms(4)] obtain els b1 where
    1: "build_elements sample g1 = (Inr els, g1)" "engine1 (doc g1) els = Inr b1"
       "fs w1' = (fs w1)(OUTPUT_PDF g1 \<mapsto> File True b1)"
       "stdout w1' = stdout w1 @ report_lines g1 (length b1)"
    by blast
  from build_pdf_success [OF assms(5)] obtain els' b2 where
    2: "build_elements sample g2 = (Inr els', g2)" "engine2 (doc g2) els' = Inr b2"
       "fs w2' = (fs w2)(OUTPUT_PDF g2 \<mapsto> File True b2)"
       "stdout w2' = stdout w2 @ report_lines g2 (length b2)"
    by blast
  from elements_read_three_globals [OF assms(1-3), of sample] 1(1) 2(1)
  have same: "els' = els" by simp
  have d: "OUTPUT_PDF g1 = OUTPUT_PDF g2 \<Longrightarrow> doc g1 = doc g2 \<and>
      report_lines g1 n = report_lines g2 n" for n
    by (simp add: doc_def report_lines_def)
  show ?thesis
    using 1 2 same d
    by (intro exI [of _ els] exI [of _ b1] exI [of _ b2]) auto
qed

theorem deterministic_content_witness:
  "COMPANY (module_globals script_dir) = COMPANY (module_globals other_dir) \<and>
   YEAR (module_globals script_dir) = YEAR (module_globals other_dir) \<and>
   QUARTERLY_DATA (module_globals script_dir) = QUARTERLY_DATA (module_globals other_dir) \<and>
   build_pdf sample_sheet plain_engine (module_globals script_dir) ready_world =
     (Inr (), module_globals script_dir, written_world) \<and>
   build_pdf sample_sheet plain_engine (module_globals script_dir) written_world =
     (Inr (), module_globals script_dir, written_again) \<and>
   build_pdf sample_sheet plain_engine (module_globals other_dir) other_world =
     (Inr (), module_globals other_dir, other_written) \<and>
   fs written_world (OUTPUT_PDF (module_globals script_dir)) =
     fs written_again (OUTPUT_PDF (module_globals script_dir)) \<and>
   (\<exists>els. fst (build_elements sample_sheet (module_globals script_dir)) = Inr els \<and>
      fst (build_elements sample_sheet (module_globals other_dir)) = Inr els \<and>
      plain_engine (doc (module_globals script_dir)) els = Inr shipped_bytes \<and>
      plain_engine (doc (module_globals other_dir)) els = Inr other_bytes \<and>
      fs written_world (OUTPUT_PDF (module_globals script_dir)) =
        Some (File True shipped_bytes) \<and>
      fs other_written (OUTPUT_PDF (module_globals other_dir)) = Some (File True other_bytes))"
proof -
  let ?g = "module_globals script_dir"
  let ?h = "module_globals other_dir"
  have same: "COMPANY ?g = COMPANY ?h" "YEAR ?g = YEAR ?h" "QUARTERLY_DATA ?g = QUARTERLY_DATA ?h"
    by (simp_all add: module_globals_def)
  obtain els where els: "build_elements sample_sheet ?g = (Inr els, ?g)"
    using shipped_elements [of ?g] by auto
  obtain els' where els': "build_elements sample_sheet ?h = (Inr els', ?h)"
    using shipped_elements [of ?h] by auto
  have w1: "write_file (OUTPUT_PDF ?g) shipped_bytes (fs ready_world) = Inr (fs written_world)"
    by (simp add: write_file_def ready_world_def written_world_def fresh_fs_def
          script_dir_def module_globals_def)
  have w2: "write_file (OUTPUT_PDF ?g) shipped_bytes (fs written_world) = Inr (fs written_world)"
    by (simp add: write_file_def written_world_def fresh_fs_def
          script_dir_def module_globals_def)
  have w3: "write_file (OUTPUT_PDF ?h) other_bytes (fs other_world) = Inr (fs other_written)"
    by (simp add: write_file_def other_world_def other_written_def other_dir_def
          module_globals_def)
  have 1: "build_pdf sample_sheet plain_engine ?g ready_world = (Inr (), ?g, written_world)"
    using build_pdf_ok [where engine = plain_engine and w = ready_world,
                        OF els plain_engine_shipped w1]
    by (simp add: ready_world_def written_world_def)
  have 2: "build_pdf sample_sheet plain_engine ?g written_world = (Inr (), ?g, written_again)"
    using build_pdf_ok [where engine = plain_engine and w = written_world,
                        OF els plain_engine_shipped w2]
    by (simp add: written_again_def)
  have 3: "build_pdf sample_sheet plain_engine ?h other_world = (Inr (), ?h, other_written)"
    using build_pdf_ok [where engine = plain_engine and w = other_world,
                        OF els' plain_engine_other w3]
    by (simp add: other_written_def)
  from deterministic_content [OF refl refl refl 1 2] have a:
    "fs written_world (OUTPUT_PDF ?g) = fs written_again (OUTPUT_PDF ?g)"
    by auto
  from deterministic_content [OF same 1 3] have b:
    "\<exists>els. fst (build_elements sample_sheet ?g) = Inr els \<and>
      fst (build_elements sample_sheet ?h) = Inr els \<and>
      plain_engine (doc ?g) els = Inr shipped_bytes \<and>
      plain_engine (doc ?h) els = Inr other_bytes \<and>
      fs written_world (OUTPUT_PDF ?g) = Some (File True shipped_bytes) \<and>
      fs other_written (OUTPUT_PDF ?h) = Some (File True other_bytes)"
    by (auto simp: plain_engine_shipped plain_engine_other)
  from same 1 2 3 a b show ?thesis
    by (simp only:)
qed







end
